theory Spec2Isabelle
  imports Complex_Main
begin

unbundle bit_operations_syntax

section \<open>Errors\<close>

text \<open>
  The Python exceptions that the modelled code can raise. A function that can raise
  returns \<open>error + 'a\<close>, with \<open>Inl\<close> for the exception.
\<close>

datatype error =
  AssertionError | IOError | OSError | ValueError | IndexError | ZeroDivisionError

definition bind_err :: "error + 'a \<Rightarrow> ('a \<Rightarrow> error + 'b) \<Rightarrow> error + 'b" where
  "bind_err r f = (case r of Inl e \<Rightarrow> Inl e | Inr x \<Rightarrow> f x)"

section \<open>A single analogue axis (class \<open>SixAxis.Axis\<close>)\<close>

text \<open>
  The fields of an axis hold Python floats; the model holds their values as real numbers.
  \<open>_set\<close>, \<open>_reset\<close> and the recentring only compare and assign, which is exact.
  \<open>corrected_value\<close> computes: it is given twice, once in exact arithmetic
  (\<open>corrected_value\<close>) and once with every operation rounded as Python rounds it
  (\<open>corrected_value_f64\<close>, below).
  The fields \<open>max\<close>, \<open>min\<close> and \<open>value\<close> are named \<open>axis_max\<close>, \<open>axis_min\<close> and
  \<open>axis_value\<close>.
\<close>

record axis =
  name :: string
  centre :: real
  axis_max :: real
  axis_min :: real
  axis_value :: real
  invert :: bool
  dead_zone :: real
  hot_zone :: real

text \<open>\<open>Axis.__init__(name, invert, dead_zone, hot_zone)\<close>\<close>

definition Axis :: "string \<Rightarrow> bool \<Rightarrow> real \<Rightarrow> real \<Rightarrow> axis" where
  "Axis n iv dz hz =
     \<lparr>name = n, centre = 5 / 10, axis_max = 9 / 10, axis_min = 1 / 10, axis_value = 5 / 10,
      invert = iv, dead_zone = dz, hot_zone = hz\<rparr>"

text \<open>
  \<open>Axis.corrected_value\<close>, read in exact arithmetic. Python's float division raises
  \<open>ZeroDivisionError\<close> on a zero divisor; both divisions carry that branch.
\<close>

definition corrected_value :: "axis \<Rightarrow> error + real" where
  "corrected_value a =
     (let high_range = axis_max a - centre a;
          high_start = centre a + dead_zone a * high_range;
          high_end = axis_max a - hot_zone a * high_range;
          low_range = centre a - axis_min a;
          low_start = centre a - dead_zone a * low_range;
          low_end = axis_min a + hot_zone a * low_range;
          result =
            (if axis_value a > high_start then
               (if axis_value a > high_end then Inr 1
                else if high_end - high_start = 0 then Inl ZeroDivisionError
                else Inr ((axis_value a - high_start) / (high_end - high_start)))
             else if axis_value a < low_start then
               (if axis_value a < low_end then Inr (- 1)
                else if low_start - low_end = 0 then Inl ZeroDivisionError
                else Inr ((axis_value a - low_start) / (low_start - low_end)))
             else Inr 0)
      in if \<not> invert a then result else map_sum id uminus result)"

text \<open>\<open>Axis._reset\<close>: centre, max and min go back to their defaults; \<open>value\<close> is kept.\<close>

definition axis_reset :: "axis \<Rightarrow> axis" where
  "axis_reset a = a\<lparr>centre := 5 / 10, axis_max := 9 / 10, axis_min := 1 / 10\<rparr>"

text \<open>\<open>Axis._set(new_value)\<close>\<close>

definition axis_set :: "real \<Rightarrow> axis \<Rightarrow> axis" where
  "axis_set new_value a =
     (let a1 = a\<lparr>axis_value := new_value\<rparr>
      in if new_value > axis_max a1 then a1\<lparr>axis_max := new_value\<rparr>
         else if new_value < axis_min a1 then a1\<lparr>axis_min := new_value\<rparr>
         else a1)"

text \<open>
  The body of the loop of \<open>SixAxis.set_axis_centres\<close>: \<open>axis.centre = axis.value\<close>.
\<close>

definition axis_recentre :: "axis \<Rightarrow> axis" where
  "axis_recentre a = a\<lparr>centre := axis_value a\<rparr>"

text \<open>
  The three ways in which the source changes an axis, and a run of them in order.
\<close>

datatype axis_op = OpSet real | OpRecentre | OpReset

fun apply_axis_op :: "axis \<Rightarrow> axis_op \<Rightarrow> axis" where
  "apply_axis_op a (OpSet r) = axis_set r a"
| "apply_axis_op a OpRecentre = axis_recentre a"
| "apply_axis_op a OpReset = axis_reset a"

fun run_axis_ops :: "axis \<Rightarrow> axis_op list \<Rightarrow> axis" where
  "run_axis_ops a [] = a"
| "run_axis_ops a (x # xs) = run_axis_ops (apply_axis_op a x) xs"

text \<open>Every raw sample of the run lies in \<open>[0, 1]\<close>.\<close>

fun samples_in_range :: "axis_op list \<Rightarrow> bool" where
  "samples_in_range [] = True"
| "samples_in_range (OpSet r # xs) = (0 \<le> r \<and> r \<le> 1 \<and> samples_in_range xs)"
| "samples_in_range (_ # xs) = samples_in_range xs"


section \<open>Python floats (IEEE 754 binary64)\<close>

text \<open>\<open>pow2 k\<close> is \<open>2\<close> to the power \<open>k\<close>, for an integer \<open>k\<close>.\<close>

definition pow2 :: "int \<Rightarrow> real" where
  "pow2 k = (if 0 \<le> k then 2 ^ nat k else 1 / 2 ^ nat (- k))"

text \<open>Rounding to the nearest integer, a tie going to the even one.\<close>

definition round_half_even :: "real \<Rightarrow> int" where
  "round_half_even m =
     (let f = \<lfloor>m\<rfloor>; d = m - of_int f
      in if d < 1 / 2 then f
         else if d > 1 / 2 then f + 1
         else if even f then f else f + 1)"

text \<open>
  The binary64 value nearest to a real number, ties to even: a number of magnitude in
  \<open>[2^e, 2^(e+1))\<close> is rounded to a multiple of \<open>2^(e-52)\<close> (53 significant bits); below
  \<open>2^(-1022)\<close> the spacing stays \<open>2^(-1074)\<close> (subnormal numbers). The exponent is not
  bounded above here; \<open>to_f64\<close> does that.
\<close>

definition f64_exponent :: "real \<Rightarrow> int" where
  "f64_exponent x = max \<lfloor>log 2 \<bar>x\<bar>\<rfloor> (- 1022)"

definition f64_round :: "real \<Rightarrow> real" where
  "f64_round x =
     (if x = 0 then 0
      else let ulp = pow2 (f64_exponent x - 52)
           in sgn x * of_int (round_half_even (\<bar>x\<bar> / ulp)) * ulp)"

text \<open>The real number is the value of a finite Python float.\<close>

definition is_f64 :: "real \<Rightarrow> bool" where
  "is_f64 x = (f64_round x = x \<and> \<bar>x\<bar> < 2 ^ 1024)"

text \<open>
  A Python float: finite, an infinity or not-a-number. The two zeros are not told
  apart: they compare equal, and a division by either raises. An operation on finite
  floats rounds the exact result; a rounded magnitude of \<open>2^1024\<close> or more is an infinity.
\<close>

datatype pyfloat = Finite real | PosInf | NegInf | NaN

definition to_f64 :: "real \<Rightarrow> pyfloat" where
  "to_f64 x =
     (let r = f64_round x
      in if 2 ^ 1024 \<le> r then PosInf else if r \<le> - (2 ^ 1024) then NegInf else Finite r)"

text \<open>Negation, \<open>+\<close>, \<open>-\<close>, \<open>*\<close>, \<open>/\<close> and \<open>>\<close>, \<open><\<close> on Python floats.\<close>

fun fneg :: "pyfloat \<Rightarrow> pyfloat" where
  "fneg (Finite x) = Finite (- x)"
| "fneg PosInf = NegInf"
| "fneg NegInf = PosInf"
| "fneg NaN = NaN"

fun fadd :: "pyfloat \<Rightarrow> pyfloat \<Rightarrow> pyfloat" where
  "fadd (Finite x) (Finite y) = to_f64 (x + y)"
| "fadd NaN b = NaN"
| "fadd a NaN = NaN"
| "fadd PosInf NegInf = NaN"
| "fadd NegInf PosInf = NaN"
| "fadd PosInf b = PosInf"
| "fadd NegInf b = NegInf"
| "fadd a PosInf = PosInf"
| "fadd a NegInf = NegInf"

definition fsub :: "pyfloat \<Rightarrow> pyfloat \<Rightarrow> pyfloat" where
  "fsub a b = fadd a (fneg b)"

fun fmul :: "pyfloat \<Rightarrow> pyfloat \<Rightarrow> pyfloat" where
  "fmul (Finite x) (Finite y) = to_f64 (x * y)"
| "fmul NaN b = NaN"
| "fmul a NaN = NaN"
| "fmul (Finite x) b = (if x = 0 then NaN else if 0 < x then b else fneg b)"
| "fmul a (Finite y) = (if y = 0 then NaN else if 0 < y then a else fneg a)"
| "fmul PosInf b = b"
| "fmul NegInf b = fneg b"

fun fdiv :: "pyfloat \<Rightarrow> pyfloat \<Rightarrow> error + pyfloat" where
  "fdiv a (Finite y) =
     (if y = 0 then Inl ZeroDivisionError
      else case a of
             Finite x \<Rightarrow> Inr (to_f64 (x / y))
           | NaN \<Rightarrow> Inr NaN
           | z \<Rightarrow> Inr (if 0 < y then z else fneg z))"
| "fdiv NaN b = Inr NaN"
| "fdiv a NaN = Inr NaN"
| "fdiv (Finite x) b = Inr (Finite 0)"
| "fdiv a b = Inr NaN"

fun fgt :: "pyfloat \<Rightarrow> pyfloat \<Rightarrow> bool" where
  "fgt (Finite x) (Finite y) = (y < x)"
| "fgt NaN b = False"
| "fgt a NaN = False"
| "fgt PosInf b = (b \<noteq> PosInf)"
| "fgt a NegInf = (a \<noteq> NegInf)"
| "fgt a b = False"

definition flt :: "pyfloat \<Rightarrow> pyfloat \<Rightarrow> bool" where
  "flt a b = fgt b a"

text \<open>
  \<open>Axis.corrected_value\<close> as Python computes it: the six local variables, in the order of
  the source (the last four are used through their definitions), then the branches.
\<close>

definition f64_high_range :: "axis \<Rightarrow> pyfloat" where
  "f64_high_range a = fsub (Finite (axis_max a)) (Finite (centre a))"

definition f64_high_start :: "axis \<Rightarrow> pyfloat" where
  "f64_high_start a = fadd (Finite (centre a)) (fmul (Finite (dead_zone a)) (f64_high_range a))"

definition f64_high_end :: "axis \<Rightarrow> pyfloat" where
  "f64_high_end a = fsub (Finite (axis_max a)) (fmul (Finite (hot_zone a)) (f64_high_range a))"

definition f64_low_range :: "axis \<Rightarrow> pyfloat" where
  "f64_low_range a = fsub (Finite (centre a)) (Finite (axis_min a))"

definition f64_low_start :: "axis \<Rightarrow> pyfloat" where
  "f64_low_start a = fsub (Finite (centre a)) (fmul (Finite (dead_zone a)) (f64_low_range a))"

definition f64_low_end :: "axis \<Rightarrow> pyfloat" where
  "f64_low_end a = fadd (Finite (axis_min a)) (fmul (Finite (hot_zone a)) (f64_low_range a))"

definition corrected_value_f64 :: "axis \<Rightarrow> error + pyfloat" where
  "corrected_value_f64 a =
     (let v = Finite (axis_value a);
          result =
            (if fgt v (f64_high_start a) then
               (if fgt v (f64_high_end a) then Inr (Finite 1)
                else fdiv (fsub v (f64_high_start a)) (fsub (f64_high_end a) (f64_high_start a)))
             else if flt v (f64_low_start a) then
               (if flt v (f64_low_end a) then Inr (Finite (- 1))
                else fdiv (fsub v (f64_low_start a)) (fsub (f64_low_start a) (f64_low_end a)))
             else Inr (Finite 0))
      in if \<not> invert a then result else map_sum id fneg result)"

section \<open>The controller (class \<open>SixAxis\<close>)\<close>

subsection \<open>Button codes and events\<close>

abbreviation (input) BUTTON_SELECT :: nat where "BUTTON_SELECT \<equiv> 0"
abbreviation (input) BUTTON_LEFT_STICK :: nat where "BUTTON_LEFT_STICK \<equiv> 1"
abbreviation (input) BUTTON_RIGHT_STICK :: nat where "BUTTON_RIGHT_STICK \<equiv> 2"
abbreviation (input) BUTTON_START :: nat where "BUTTON_START \<equiv> 3"
abbreviation (input) BUTTON_D_UP :: nat where "BUTTON_D_UP \<equiv> 4"
abbreviation (input) BUTTON_D_RIGHT :: nat where "BUTTON_D_RIGHT \<equiv> 5"
abbreviation (input) BUTTON_D_DOWN :: nat where "BUTTON_D_DOWN \<equiv> 6"
abbreviation (input) BUTTON_D_LEFT :: nat where "BUTTON_D_LEFT \<equiv> 7"
abbreviation (input) BUTTON_L2 :: nat where "BUTTON_L2 \<equiv> 8"
abbreviation (input) BUTTON_R2 :: nat where "BUTTON_R2 \<equiv> 9"
abbreviation (input) BUTTON_L1 :: nat where "BUTTON_L1 \<equiv> 10"
abbreviation (input) BUTTON_R1 :: nat where "BUTTON_R1 \<equiv> 11"
abbreviation (input) BUTTON_TRIANGLE :: nat where "BUTTON_TRIANGLE \<equiv> 12"
abbreviation (input) BUTTON_CIRCLE :: nat where "BUTTON_CIRCLE \<equiv> 13"
abbreviation (input) BUTTON_CROSS :: nat where "BUTTON_CROSS \<equiv> 14"
abbreviation (input) BUTTON_SQUARE :: nat where "BUTTON_SQUARE \<equiv> 15"
abbreviation (input) BUTTON_PS :: nat where "BUTTON_PS \<equiv> 16"

text \<open>
  Modelled from the spec: the evdev constants \<open>ecodes.EV_ABS\<close> and \<open>ecodes.EV_KEY\<close> are
  imported by the source and not defined in it. The spec gives the shape of an event as
  \<open>{type: ABSOLUTE_AXIS | KEY, code: integer, value: integer}\<close>; the type is a tag here,
  with \<open>EV_OTHER\<close> for every type that is neither of the two. The fields \<open>type\<close>,
  \<open>code\<close> and \<open>value\<close> of an event are named \<open>ev_type\<close>, \<open>ev_code\<close> and \<open>ev_value\<close>.
\<close>

datatype ev_type = EV_ABS | EV_KEY | EV_OTHER

record event =
  ev_type :: ev_type
  ev_code :: int
  ev_value :: int

text \<open>
  The \<open>if\<close>/\<open>elif\<close> chain of \<open>handle_event\<close> from raw key codes to buttons, in the
  order of the source; \<open>None\<close> is Python's \<open>button = None\<close>.
\<close>

definition button_of_code :: "int \<Rightarrow> nat option" where
  "button_of_code c =
     (if c = 314 then Some BUTTON_SELECT
      else if c = 315 then Some BUTTON_START
      else if c = 317 then Some BUTTON_LEFT_STICK
      else if c = 318 then Some BUTTON_RIGHT_STICK
      else if c = 546 then Some BUTTON_D_LEFT
      else if c = 544 then Some BUTTON_D_UP
      else if c = 547 then Some BUTTON_D_RIGHT
      else if c = 545 then Some BUTTON_D_DOWN
      else if c = 316 then Some BUTTON_PS
      else if c = 308 then Some BUTTON_SQUARE
      else if c = 307 then Some BUTTON_TRIANGLE
      else if c = 305 then Some BUTTON_CIRCLE
      else if c = 304 then Some BUTTON_CROSS
      else if c = 311 then Some BUTTON_R1
      else if c = 313 then Some BUTTON_R2
      else if c = 310 then Some BUTTON_L1
      else if c = 312 then Some BUTTON_L2
      else None)"

subsection \<open>State\<close>

text \<open>
  A registration is the dict \<open>h = {'handler': ..., 'mask': ...}\<close>. A handler is a Python
  callable, compared by identity: it is modelled by a number, the same callable having the
  same number. The field \<open>reg_id\<close> stands for the identity of the dict object, which is
  fresh at every call of \<open>register_button_handler\<close>; Python's \<open>==\<close> on dicts compares
  contents only (\<open>dict_eq\<close> below).
\<close>

record registration =
  reg_id :: nat
  handler :: nat
  mask :: int

text \<open>
  The host side that \<open>connect\<close> talks to through evdev: \<open>list_devices()\<close> and the
  constructor \<open>InputDevice(fn)\<close>, which can fail.
\<close>

record device =
  path :: string
  dev_name :: string

record host =
  list_devices :: "string list"
  InputDevice :: "string \<Rightarrow> error + device"

text \<open>
  The controller. \<open>stop_function\<close> is \<open>_stop_function\<close>: \<open>None\<close>, or the stop method of
  the reader thread, represented by the device it reads. The field \<open>next_id\<close> is not an
  attribute of the Python object: it numbers the registration objects.
\<close>

record sixaxis =
  stop_function :: "device option"
  axes :: "axis list"
  button_handlers :: "registration list"
  buttons_pressed :: int
  next_id :: nat

text \<open>
  The callables behind the handler numbers. A handler is called with the button and has
  the controller in its reach (the repository itself binds \<open>reset_axis_calibration\<close> and
  \<open>set_axis_centres\<close> as handlers, and a handler can call the \<open>remove\<close> closure of a
  registration): it is a function from the button and the controller's state to the new
  state, or to the exception it raises. A call of a handler is taken to return or raise.
\<close>

type_synonym handlers = "nat \<Rightarrow> nat \<Rightarrow> sixaxis \<Rightarrow> error + sixaxis"

text \<open>
  The outcome of running controller code that calls handlers: \<open>None\<close> when the run does
  not end; otherwise the handler calls \<open>(handler, button)\<close> made, oldest first, with the
  value returned or the exception raised.
\<close>

type_synonym 'a run = "((nat \<times> nat) list \<times> (error + 'a)) option"

definition ret :: "'a \<Rightarrow> 'a run" where
  "ret x = Some ([], Inr x)"

definition lift_err :: "error + 'a \<Rightarrow> 'a run" where
  "lift_err r = Some ([], r)"

definition bind_run :: "'a run \<Rightarrow> ('a \<Rightarrow> 'b run) \<Rightarrow> 'b run" where
  "bind_run r f =
     (case r of
        None \<Rightarrow> None
      | Some (tr, Inl e) \<Rightarrow> Some (tr, Inl e)
      | Some (tr, Inr x) \<Rightarrow>
          (case f x of None \<Rightarrow> None | Some (tr', y) \<Rightarrow> Some (tr @ tr', y)))"

text \<open>What a Python function returns where the source returns \<open>False\<close> or falls off its end.\<close>

datatype pyval = PyNone | PyBool bool

subsection \<open>Connection\<close>

definition is_connected :: "sixaxis \<Rightarrow> bool" where
  "is_connected c = (if stop_function c \<noteq> None then True else False)"

text \<open>
  \<open>_start_device_read_loop\<close>: builds the dispatcher and the thread, stores the thread's
  stop method and starts the thread. Only the stored stop method is state of the controller.
\<close>

definition start_device_read_loop :: "device \<Rightarrow> sixaxis \<Rightarrow> sixaxis" where
  "start_device_read_loop dv c = c\<lparr>stop_function := Some dv\<rparr>"

text \<open>The list comprehension \<open>[InputDevice(fn) for fn in list_devices()]\<close>.\<close>

fun open_all :: "(string \<Rightarrow> error + device) \<Rightarrow> string list \<Rightarrow> error + device list" where
  "open_all opn [] = Inr []"
| "open_all opn (fn # fns) =
     bind_err (opn fn) (\<lambda>d. bind_err (open_all opn fns) (\<lambda>ds. Inr (d # ds)))"

definition find_controller_device :: "host \<Rightarrow> string \<Rightarrow> error + device" where
  "find_controller_device h controller_name =
     bind_err (open_all (InputDevice h) (list_devices h))
       (\<lambda>devs. case List.find (\<lambda>d. dev_name d = controller_name) devs of
                  Some d \<Rightarrow> Inr d
                | None \<Rightarrow> Inl IOError)"

text \<open>
  \<open>connect(dev, controller_name)\<close>. After \<open>_start_device_read_loop\<close> the source has no
  \<open>return\<close>, so the call returns \<open>None\<close>.
\<close>

definition connect :: "host \<Rightarrow> string option \<Rightarrow> string \<Rightarrow> sixaxis \<Rightarrow> error + (pyval \<times> sixaxis)" where
  "connect h dev controller_name c =
     (if stop_function c \<noteq> None then Inr (PyBool False, c)
      else bind_err
             (case dev of
                None \<Rightarrow> find_controller_device h controller_name
              | Some p \<Rightarrow> InputDevice h p)
             (\<lambda>dv. Inr (PyNone, start_device_read_loop dv c)))"

definition disconnect :: "sixaxis \<Rightarrow> sixaxis" where
  "disconnect c = (if stop_function c \<noteq> None then c\<lparr>stop_function := None\<rparr> else c)"

text \<open>\<open>SixAxis.__init__(dead_zone, hot_zone, connect, invert_axes)\<close>\<close>

definition SixAxis :: "host \<Rightarrow> real \<Rightarrow> real \<Rightarrow> bool \<Rightarrow> bool list \<Rightarrow> error + sixaxis" where
  "SixAxis h dz hz conn invert_axes =
     (if length invert_axes \<noteq> 4 then Inl AssertionError
      else
        let c = \<lparr>stop_function = None,
                 axes = map (\<lambda>(i, ax). Axis ax (invert_axes ! i) dz hz)
                          (enumerate 0 [''left_x'', ''left_y'', ''right_x'', ''right_y'']),
                 button_handlers = [], buttons_pressed = 0, next_id = 0\<rparr>
        in if conn
           then bind_err (connect h None ''PLAYSTATION(R)3 Controller'' c) (\<lambda>(r, c'). Inr c')
           else Inr c)"

subsection \<open>Buttons\<close>

definition get_and_clear_button_press_history :: "sixaxis \<Rightarrow> int \<times> sixaxis" where
  "get_and_clear_button_press_history c =
     (let old_buttons = buttons_pressed c
      in (old_buttons, c\<lparr>buttons_pressed := 0\<rparr>))"

definition is_pressed :: "sixaxis \<Rightarrow> nat \<Rightarrow> bool" where
  "is_pressed c button = (buttons_pressed c AND push_bit button 1 \<noteq> 0)"

text \<open>
  \<open>register_button_handler(button_handler, buttons)\<close>. \<open>buttons\<close> is a list or a bare
  button code; codes are natural numbers (a negative code makes Python's shift raise
  before anything is stored). The loop adds \<open>1 << button\<close> to the mask for each element.
  The function returns the closure \<open>remove\<close>, which is determined by the dict \<open>h\<close> it
  captures: the model returns \<open>h\<close>, and \<open>remove h\<close> is a call of the closure.
\<close>

datatype buttons_arg = Bare nat | ButtonList "nat list"

fun add_masks :: "int \<Rightarrow> nat list \<Rightarrow> int" where
  "add_masks m [] = m"
| "add_masks m (button # bs) = add_masks (m + push_bit button 1) bs"

definition register_button_handler :: "nat \<Rightarrow> buttons_arg \<Rightarrow> sixaxis \<Rightarrow> registration \<times> sixaxis" where
  "register_button_handler button_handler buttons c =
     (let m = (case buttons of
                 ButtonList bs \<Rightarrow> add_masks 0 bs
               | Bare b \<Rightarrow> 0 + push_bit b 1);
          h = \<lparr>reg_id = next_id c, handler = button_handler, mask = m\<rparr>
      in (h, c\<lparr>button_handlers := button_handlers c @ [h], next_id := Suc (next_id c)\<rparr>))"

text \<open>
  \<open>self.button_handlers.remove(h)\<close>: Python's \<open>list.remove\<close> deletes the first element
  equal to \<open>h\<close> and raises \<open>ValueError\<close> when there is none; two dicts are equal when
  their handlers and masks are.
\<close>

definition dict_eq :: "registration \<Rightarrow> registration \<Rightarrow> bool" where
  "dict_eq x y = (handler x = handler y \<and> mask x = mask y)"

fun list_remove :: "registration \<Rightarrow> registration list \<Rightarrow> error + registration list" where
  "list_remove h [] = Inl ValueError"
| "list_remove h (x # xs) =
     (if dict_eq x h then Inr xs
      else bind_err (list_remove h xs) (\<lambda>ys. Inr (x # ys)))"

definition remove :: "registration \<Rightarrow> sixaxis \<Rightarrow> error + sixaxis" where
  "remove h c =
     bind_err (list_remove h (button_handlers c)) (\<lambda>hs. Inr (c\<lparr>button_handlers := hs\<rparr>))"

subsection \<open>Calibration\<close>

definition set_axis_centres :: "sixaxis \<Rightarrow> sixaxis" where
  "set_axis_centres c = c\<lparr>axes := map axis_recentre (axes c)\<rparr>"

definition reset_axis_calibration :: "sixaxis \<Rightarrow> sixaxis" where
  "reset_axis_calibration c = c\<lparr>axes := map axis_reset (axes c)\<rparr>"

subsection \<open>Event handling\<close>

text \<open>\<open>self.axes[i]._set(value)\<close>; Python raises \<open>IndexError\<close> out of range.\<close>

definition set_axis :: "nat \<Rightarrow> real \<Rightarrow> sixaxis \<Rightarrow> error + sixaxis" where
  "set_axis i v c =
     (if i < length (axes c) then Inr (c\<lparr>axes := (axes c)[i := axis_set v (axes c ! i)]\<rparr>)
      else Inl IndexError)"

text \<open>
  The loop \<open>for button_handler in self.button_handlers\<close>. Python's list iterator keeps
  an index into the list object and reads the list as it is at each step, so what a
  handler appends to or removes from \<open>button_handlers\<close> is seen by the rest of the loop:
  \<open>i\<close> is that index and \<open>c\<close> the state as the handlers so far have left it. An
  exception raised by a handler ends the loop and leaves \<open>handle_event\<close>. Handlers can
  keep the loop from ending (each call appending a matching registration), so the
  function is partial.
\<close>

partial_function (option) dispatch ::
  "handlers \<Rightarrow> int \<Rightarrow> nat \<Rightarrow> nat \<Rightarrow> (nat \<times> nat) list \<Rightarrow> sixaxis
     \<Rightarrow> ((nat \<times> nat) list \<times> (error + sixaxis)) option" where
  "dispatch env bitmask button i tr c =
     (if i < length (button_handlers c) then
        (let button_handler = button_handlers c ! i
         in if mask button_handler AND bitmask \<noteq> 0 then
              (case env (handler button_handler) button c of
                 Inl e \<Rightarrow> Some (tr @ [(handler button_handler, button)], Inl e)
               | Inr c' \<Rightarrow>
                   dispatch env bitmask button (Suc i)
                     (tr @ [(handler button_handler, button)]) c')
            else dispatch env bitmask button (Suc i) tr c)
      else Some (tr, Inr c))"

definition handle_event :: "handlers \<Rightarrow> event \<Rightarrow> sixaxis \<Rightarrow> sixaxis run" where
  "handle_event env ev c =
     (if ev_type ev = EV_ABS then
        (let v0 = real_of_int (ev_value ev) / 255;
             v = (if v0 < 0 then 0 else if v0 > 1 then 1 else v0)
         in if ev_code ev = 0 then lift_err (set_axis 0 v c)
            else if ev_code ev = 1 then lift_err (set_axis 1 v c)
            else if ev_code ev = 3 then lift_err (set_axis 2 v c)
            else if ev_code ev = 4 then lift_err (set_axis 3 v c)
            else ret c)
      else if ev_type ev = EV_KEY then
        (case button_of_code (ev_code ev) of
           None \<Rightarrow> ret c
         | Some button \<Rightarrow>
             (let bitmask = push_bit button 1
              in if ev_value ev = 1 then
                   dispatch env bitmask button 0 []
                     (c\<lparr>buttons_pressed := buttons_pressed c OR bitmask\<rparr>)
                 else ret (c\<lparr>buttons_pressed := buttons_pressed c AND NOT bitmask\<rparr>)))
      else ret c)"


subsection \<open>Predicates on an axis used in the proofs\<close>

text \<open>The bounds are at least as wide as their defaults.\<close>

definition default_bounds :: "axis \<Rightarrow> bool" where
  "default_bounds a = (axis_min a \<le> 1 / 10 \<and> 9 / 10 \<le> axis_max a)"


section \<open>Basic facts\<close>

lemma bind_err_simps [simp]:
  "bind_err (Inl e) f = Inl e" "bind_err (Inr x) f = f x"
  by (simp_all add: bind_err_def)

lemma bind_run_simps [simp]:
  "bind_run None f = None"
  "bind_run (Some (tr, Inl e)) f = Some (tr, Inl e)"
  "bind_run (Some (tr, Inr x)) f =
     (case f x of None \<Rightarrow> None | Some (tr', y) \<Rightarrow> Some (tr @ tr', y))"
  by (simp_all add: bind_run_def)

lemma bind_run_ret [simp]: "bind_run (ret x) f = f x"
  by (simp add: bind_run_def ret_def split: option.splits prod.splits)

lemma bind_run_lift_err [simp]:
  "bind_run (lift_err (Inr x)) f = f x" "bind_run (lift_err (Inl e)) f = Some ([], Inl e)"
  by (simp_all add: bind_run_def lift_err_def split: option.splits prod.splits)

lemma axis_set_fields:
  "axis_value (axis_set r a) = r"
  "centre (axis_set r a) = centre a"
  "axis_max (axis_set r a) = (if r > axis_max a then r else axis_max a)"
  "axis_min (axis_set r a) =
     (if r > axis_max a then axis_min a else if r < axis_min a then r else axis_min a)"
  "invert (axis_set r a) = invert a"
  "dead_zone (axis_set r a) = dead_zone a"
  "hot_zone (axis_set r a) = hot_zone a"
  by (simp_all add: axis_set_def Let_def)

lemma SixAxis_default:
  "SixAxis h dz hz False [i0, i1, i2, i3] =
     Inr \<lparr>stop_function = None,
          axes = [Axis ''left_x'' i0 dz hz, Axis ''left_y'' i1 dz hz,
                  Axis ''right_x'' i2 dz hz, Axis ''right_y'' i3 dz hz],
          button_handlers = [], buttons_pressed = 0, next_id = 0\<rparr>"
  by (simp add: SixAxis_def Let_def enumerate_eq_zip upt_rec)

lemma bit_set_button: "bit (x OR (2::int) ^ b) b"
  by (simp add: bit_simps)

lemma bit_clear_button: "\<not> bit (x AND NOT ((2::int) ^ b)) b"
  by (simp add: bit_simps)

lemma is_pressed_bit: "is_pressed c b \<longleftrightarrow> bit (buttons_pressed c) b"
  by (simp add: is_pressed_def bit_iff_and_push_bit_not_eq_0)

section \<open>Calibration bounds\<close>

lemma default_bounds_Axis: "default_bounds (Axis n iv dz hz)"
  by (simp add: default_bounds_def Axis_def)

lemma default_bounds_step: "default_bounds a \<Longrightarrow> default_bounds (apply_axis_op a x)"
  by (cases x) (auto simp: default_bounds_def axis_set_fields axis_recentre_def axis_reset_def)

lemma default_bounds_run: "default_bounds a \<Longrightarrow> default_bounds (run_axis_ops a xs)"
  by (induction xs arbitrary: a) (simp_all add: default_bounds_step)

lemma axis_set_within:
  assumes "default_bounds a"
  shows "axis_min (axis_set r a) \<le> axis_value (axis_set r a)
       \<and> axis_value (axis_set r a) \<le> axis_max (axis_set r a)"
  using assms by (auto simp: default_bounds_def axis_set_fields)



text \<open>
  The same three steps through the controller: the event \<open>EV_ABS\<close>, code 0, value 255,
  then \<open>reset_axis_calibration()\<close>, then \<open>set_axis_centres()\<close>. The list gives
  \<open>(min, centre, max)\<close> of the four axes.
\<close>

lemma recentre_after_reset_controller:
  "bind_run (lift_err (SixAxis \<lparr>list_devices = [], InputDevice = (\<lambda>p. Inl OSError)\<rparr> (5 / 100) 0
                         False [False, False, False, False]))
     (\<lambda>c0. bind_run (handle_event env \<lparr>ev_type = EV_ABS, ev_code = 0, ev_value = 255\<rparr> c0)
        (\<lambda>c1. let c2 = set_axis_centres (reset_axis_calibration c1)
               in ret (map (\<lambda>a. (axis_min a, centre a, axis_max a)) (axes c2))))
   = Some ([], Inr [(1 / 10, 1, 9 / 10), (1 / 10, 5 / 10, 9 / 10), (1 / 10, 5 / 10, 9 / 10),
                    (1 / 10, 5 / 10, 9 / 10)])"
  by (simp add: SixAxis_default handle_event_def set_axis_def set_axis_centres_def
        reset_axis_calibration_def axis_set_def axis_reset_def axis_recentre_def Axis_def Let_def
        ret_def)



text \<open>
  C3, as stated, fails in its last part: there is no reachable state and sample in
  \<open>[0, 1]\<close> for which \<open>min \<le> value \<le> max\<close> is false after \<open>_set\<close>. The bounds of a
  reachable state are never narrower than \<open>[0.1, 0.9]\<close>, so a sample above \<open>max\<close> is
  above \<open>min\<close> as well and becomes the new \<open>max\<close>, and a sample below \<open>min\<close> becomes
  the new \<open>min\<close>.
\<close>

theorem no_value_outside_bounds_after_set:
  "\<not> (\<exists>ops r n iv dz hz. samples_in_range ops \<and> 0 \<le> r \<and> r \<le> 1 \<and>
        (let a' = axis_set r (run_axis_ops (Axis n iv dz hz) ops)
         in \<not> (axis_min a' \<le> axis_value a' \<and> axis_value a' \<le> axis_max a')))"
  using axis_set_within [OF default_bounds_run [OF default_bounds_Axis]]
  by (simp add: Let_def)

text \<open>
  C3, amended: for every state \<open>a\<close> reached from the initial state of an axis by samples
  in \<open>[0, 1]\<close>, recentrings and resets, and every sample \<open>r\<close> in \<open>[0, 1]\<close>, after
  \<open>_set(r)\<close>: \<open>value = r\<close>; \<open>min \<le> max\<close>; \<open>max\<close> becomes \<open>r\<close> if \<open>r > max\<close>,
  else \<open>min\<close> becomes \<open>r\<close> if \<open>r < min\<close>, and at most one of the two bounds changes;
  and \<open>min \<le> value \<le> max\<close> holds.
\<close>

theorem axis_set_postcondition:
  assumes "samples_in_range ops" and "0 \<le> r" and "r \<le> 1"
  shows "let a = run_axis_ops (Axis n iv dz hz) ops; a' = axis_set r a
         in axis_value a' = r
          \<and> axis_min a' \<le> axis_max a'
          \<and> axis_max a' = (if r > axis_max a then r else axis_max a)
          \<and> axis_min a' = (if r > axis_max a then axis_min a
                            else if r < axis_min a then r else axis_min a)
          \<and> (axis_max a' = axis_max a \<or> axis_min a' = axis_min a)
          \<and> axis_min a' \<le> axis_value a' \<and> axis_value a' \<le> axis_max a'"
proof -
  have b: "default_bounds (run_axis_ops (Axis n iv dz hz) ops)"
    by (rule default_bounds_run [OF default_bounds_Axis])
  show ?thesis
    using b by (auto simp: Let_def default_bounds_def axis_set_fields)
qed

theorem axis_set_postcondition_witness:
  "samples_in_range [OpSet 1, OpReset, OpRecentre] \<and> (0::real) \<le> 1 / 20 \<and> (1 / 20 :: real) \<le> 1 \<and>
   (let a = run_axis_ops (Axis ''left_x'' False (5 / 100) 0) [OpSet 1, OpReset, OpRecentre];
        a' = axis_set (1 / 20) a
    in axis_value a' = 1 / 20 \<and> axis_min a' = 1 / 20 \<and> axis_max a' = 9 / 10
     \<and> axis_min a' \<le> axis_value a' \<and> axis_value a' \<le> axis_max a')"
  using axis_set_postcondition
          [of "[OpSet 1, OpReset, OpRecentre]" "1 / 20" "''left_x''" False "5 / 100" 0]
  by (simp add: Let_def axis_set_fields axis_reset_def axis_recentre_def Axis_def)

section \<open>Correction in exact arithmetic\<close>

lemma dead_zone_inside:
  fixes d w :: real
  assumes "0 \<le> d" "d < 1" "0 < w"
  shows "0 \<le> d * w" "d * w < w"
  using assms by simp_all

text \<open>
  Neither division of \<open>corrected_value\<close> can have a zero divisor: a value above
  \<open>high_start\<close> and not above \<open>high_end\<close> separates the two, and likewise below.
\<close>

lemma corrected_value_no_error: "corrected_value a \<noteq> Inl e"
  by (auto simp: corrected_value_def Let_def map_sum_def split: sum.splits)

text \<open>
  In exact arithmetic the ramps end exactly on the bounds: with \<open>min < centre < max\<close>,
  \<open>hot_zone = 0\<close>, \<open>dead_zone\<close> in \<open>[0, 1)\<close> and no inversion, the value is \<open>1\<close> at
  \<open>value = max\<close>, \<open>-1\<close> at \<open>value = min\<close> and \<open>0\<close> at \<open>value = centre\<close>. Python's
  rounding can move \<open>high_start\<close> or \<open>low_start\<close> onto the bound; see
  \<open>corrected_value_f64\<close> below.
\<close>

lemma corrected_value_exact_extremes:
  assumes "axis_min a < centre a" and "centre a < axis_max a"
    and "hot_zone a = 0" and "0 \<le> dead_zone a" and "dead_zone a < 1" and "\<not> invert a"
  shows "(axis_value a = axis_max a \<longrightarrow> corrected_value a = Inr 1)
       \<and> (axis_value a = axis_min a \<longrightarrow> corrected_value a = Inr (- 1))
       \<and> (axis_value a = centre a \<longrightarrow> corrected_value a = Inr 0)"
proof -
  let ?hr = "axis_max a - centre a" and ?lr = "centre a - axis_min a"
  have hr: "0 \<le> dead_zone a * ?hr" "dead_zone a * ?hr < ?hr"
    using dead_zone_inside [of "dead_zone a" ?hr] assms by simp_all
  have lr: "0 \<le> dead_zone a * ?lr" "dead_zone a * ?lr < ?lr"
    using dead_zone_inside [of "dead_zone a" ?lr] assms by simp_all
  have top: "corrected_value a = Inr 1" if "axis_value a = axis_max a"
    using that assms(3,6) hr by (simp add: corrected_value_def Let_def)
  have bot: "corrected_value a = Inr (- 1)" if "axis_value a = axis_min a"
  proof -
    have "\<not> axis_min a > centre a + dead_zone a * ?hr"
      using hr assms(1) by linarith
    moreover have "axis_min a < centre a - dead_zone a * ?lr"
      using lr by linarith
    moreover have "(axis_min a - (centre a - dead_zone a * ?lr))
                     / (centre a - dead_zone a * ?lr - axis_min a) = - 1"
      using lr(2) by (simp add: field_simps)
    ultimately show ?thesis
      using that assms(3,6) by (simp add: corrected_value_def Let_def)
  qed
  have mid: "corrected_value a = Inr 0" if "axis_value a = centre a"
    using that assms(6) hr lr by (simp add: corrected_value_def Let_def)
  from top bot mid show ?thesis by blast
qed

text \<open>
  C7: an axis built with \<open>dead_zone = 0.05\<close>, \<open>hot_zone = 0\<close> and no inversion starts with
  \<open>centre = 0.5\<close>, \<open>min = 0.1\<close>, \<open>max = 0.9\<close>. Fed \<open>0.5\<close>, then \<open>0.9\<close>, then \<open>0.1\<close>,
  then \<open>0.7\<close>, its corrected value is \<open>0\<close>, \<open>1\<close>, \<open>-1\<close> and \<open>9/19\<close> in turn; \<open>9/19\<close>
  is about \<open>0.4737\<close>, less than \<open>0.03\<close> away from \<open>0.5\<close>.
\<close>

theorem corrected_value_scenario:
  "(let a0 = Axis ''left_x'' False (5 / 100) 0;
        a1 = axis_set (5 / 10) a0;
        a2 = axis_set (9 / 10) a1;
        a3 = axis_set (1 / 10) a2;
        a4 = axis_set (7 / 10) a3
    in centre a0 = 5 / 10 \<and> axis_min a0 = 1 / 10 \<and> axis_max a0 = 9 / 10
     \<and> corrected_value a1 = Inr 0
     \<and> corrected_value a2 = Inr 1
     \<and> corrected_value a3 = Inr (- 1)
     \<and> corrected_value a4 = Inr (9 / 19)
     \<and> \<bar>(9 / 19 :: real) - 5 / 10\<bar> < 3 / 100)"
  by (simp add: Let_def Axis_def axis_set_def corrected_value_def)


section \<open>Rounding to binary64\<close>

lemma pow2_powr: "pow2 k = 2 powr real_of_int k"
  by (simp add: pow2_def powr_real_of_int field_simps)

lemma pow2_pos [simp]: "0 < pow2 k"
  by (simp add: pow2_powr)

lemma pow2_nonneg [simp]: "0 \<le> pow2 k"
  by (simp add: pow2_powr)

lemma pow2_nonzero [simp]: "pow2 k \<noteq> 0"
  by (simp add: pow2_powr)

lemma pow2_add: "pow2 (j + k) = pow2 j * pow2 k"
  by (simp add: pow2_powr powr_add)

lemma pow2_shift: "pow2 (k + int n) = 2 ^ n * pow2 k"
  using pow2_add [of k "int n"] by (simp add: pow2_def)

lemma pow2_53: "pow2 (e + 1) = 2 ^ 53 * pow2 (e - 52)"
  using pow2_shift [of "e - 52" 53] by (simp add: add.commute)

lemma pow2_52: "pow2 e = 2 ^ 52 * pow2 (e - 52)"
  using pow2_shift [of "e - 52" 52] by simp

lemma pow2_mono: "j \<le> k \<Longrightarrow> pow2 j \<le> pow2 k"
  by (simp add: pow2_powr)

lemma pow2_nat: "pow2 (int n) = 2 ^ n"
  by (simp add: pow2_def)

lemma rhe_lower: "\<lfloor>m\<rfloor> \<le> round_half_even m"
  by (simp add: round_half_even_def Let_def)

lemma rhe_upper: "round_half_even m \<le> \<lfloor>m\<rfloor> + 1"
  by (simp add: round_half_even_def Let_def)

lemma rhe_of_int [simp]: "round_half_even (of_int n) = n"
  by (simp add: round_half_even_def Let_def)

lemma rhe_le_int: "m \<le> of_int n \<Longrightarrow> round_half_even m \<le> n"
proof -
  assume a: "m \<le> of_int n"
  show ?thesis
  proof (cases "m = of_int n")
    case True
    then show ?thesis by simp
  next
    case False
    with a have "m < of_int n" by simp
    then have "\<lfloor>m\<rfloor> < n" by (simp add: floor_less_iff)
    with rhe_upper [of m] show ?thesis by linarith
  qed
qed

lemma rhe_ge_int: "of_int n \<le> m \<Longrightarrow> n \<le> round_half_even m"
proof -
  assume "of_int n \<le> m"
  then have "n \<le> \<lfloor>m\<rfloor>" by (simp add: le_floor_iff)
  with rhe_lower [of m] show ?thesis by linarith
qed

lemma rhe_mono: "x \<le> y \<Longrightarrow> round_half_even x \<le> round_half_even y"
proof -
  assume xy: "x \<le> y"
  then have fl: "\<lfloor>x\<rfloor> \<le> \<lfloor>y\<rfloor>" by (rule floor_mono)
  show ?thesis
  proof (cases "\<lfloor>x\<rfloor> = \<lfloor>y\<rfloor>")
    case True
    with xy have "x - of_int \<lfloor>x\<rfloor> \<le> y - of_int \<lfloor>y\<rfloor>" by simp
    with True show ?thesis
      by (auto simp: round_half_even_def Let_def)
  next
    case False
    with fl have "\<lfloor>x\<rfloor> + 1 \<le> \<lfloor>y\<rfloor>" by simp
    with rhe_upper [of x] rhe_lower [of y] show ?thesis by linarith
  qed
qed

lemma f64_round_zero [simp]: "f64_round 0 = 0"
  by (simp add: f64_round_def)

lemma f64_exponent_minus [simp]: "f64_exponent (- x) = f64_exponent x"
  by (simp add: f64_exponent_def)

lemma f64_round_minus: "f64_round (- x) = - f64_round x"
  by (simp add: f64_round_def Let_def sgn_minus)

lemma f64_round_nonneg: "0 \<le> x \<Longrightarrow> 0 \<le> f64_round x"
proof -
  assume x: "0 \<le> x"
  have "0 \<le> round_half_even (\<bar>x\<bar> / pow2 (f64_exponent x - 52))"
    by (rule rhe_ge_int) simp
  with x show ?thesis
    by (simp add: f64_round_def Let_def sgn_if)
qed

lemma f64_round_pos_def:
  "0 < x \<Longrightarrow> f64_round x =
     of_int (round_half_even (x / pow2 (f64_exponent x - 52))) * pow2 (f64_exponent x - 52)"
  by (simp add: f64_round_def Let_def)

lemma exponent_upper: "0 < x \<Longrightarrow> x < pow2 (f64_exponent x + 1)"
proof -
  assume x: "0 < x"
  have "x < 2 powr (real_of_int \<lfloor>log 2 x\<rfloor> + 1)"
    using x by (metis less_powr_iff one_less_numeral_iff real_of_int_floor_add_one_gt semiring_norm(76))
  also have "\<dots> = pow2 (\<lfloor>log 2 x\<rfloor> + 1)" by (simp add: pow2_powr)
  also have "\<dots> \<le> pow2 (f64_exponent x + 1)"
    using x by (intro pow2_mono) (simp add: f64_exponent_def)
  finally show ?thesis .
qed

lemma exponent_lower: "0 < x \<Longrightarrow> - 1022 < f64_exponent x \<Longrightarrow> pow2 (f64_exponent x) \<le> x"
proof -
  assume x: "0 < x" and e: "- 1022 < f64_exponent x"
  then have eq: "f64_exponent x = \<lfloor>log 2 x\<rfloor>"
    by (simp add: f64_exponent_def max_def split: if_splits)
  have "2 powr real_of_int \<lfloor>log 2 x\<rfloor> \<le> 2 powr log 2 x"
    by (intro powr_mono) simp_all
  with x eq show ?thesis by (simp add: pow2_powr)
qed

lemma exponent_mono: "0 < x \<Longrightarrow> x \<le> y \<Longrightarrow> f64_exponent x \<le> f64_exponent y"
  unfolding f64_exponent_def
  by (intro max.mono floor_mono) simp_all


lemma f64_round_mono_pos:
  assumes "0 < x" and "x \<le> y"
  shows "f64_round x \<le> f64_round y"
proof -
  let ?ex = "f64_exponent x" and ?ey = "f64_exponent y"
  from assms have y: "0 < y" by simp
  have le: "?ex \<le> ?ey" using assms by (rule exponent_mono)
  show ?thesis
  proof (cases "?ex = ?ey")
    case True
    have "x / pow2 (?ey - 52) \<le> y / pow2 (?ey - 52)"
      using assms(2) by (simp add: divide_right_mono)
    then have "round_half_even (x / pow2 (?ey - 52)) \<le> round_half_even (y / pow2 (?ey - 52))"
      by (rule rhe_mono)
    then have "real_of_int (round_half_even (x / pow2 (?ey - 52))) * pow2 (?ey - 52)
                 \<le> real_of_int (round_half_even (y / pow2 (?ey - 52))) * pow2 (?ey - 52)"
      by (simp add: mult_right_mono)
    with True assms(1) y show ?thesis by (simp add: f64_round_pos_def)
  next
    case False
    with le have lt: "?ex + 1 \<le> ?ey" by simp
    then have ey: "- 1022 < ?ey" by (simp add: f64_exponent_def)
    have "x / pow2 (?ex - 52) \<le> pow2 (?ex + 1) / pow2 (?ex - 52)"
      using exponent_upper [OF assms(1)] by (simp add: divide_right_mono)
    also have "pow2 (?ex + 1) / pow2 (?ex - 52) = of_int (2 ^ 53)"
      by (simp add: pow2_53 [of ?ex])
    finally have "round_half_even (x / pow2 (?ex - 52)) \<le> 2 ^ 53"
      by (rule rhe_le_int)
    then have "real_of_int (round_half_even (x / pow2 (?ex - 52))) \<le> real_of_int (2 ^ 53)"
      by (simp only: of_int_le_iff)
    then have "real_of_int (round_half_even (x / pow2 (?ex - 52))) * pow2 (?ex - 52)
                 \<le> real_of_int (2 ^ 53) * pow2 (?ex - 52)"
      by (rule mult_right_mono) simp
    also have "\<dots> = pow2 (?ex + 1)"
      by (simp add: pow2_53 [of ?ex])
    also have "\<dots> \<le> pow2 ?ey" using lt by (rule pow2_mono)
    finally have a: "f64_round x \<le> pow2 ?ey"
      using assms(1) by (simp only: f64_round_pos_def)
    have "of_int (2 ^ 52) = pow2 ?ey / pow2 (?ey - 52)"
      by (simp add: pow2_52 [of ?ey])
    also have "\<dots> \<le> y / pow2 (?ey - 52)"
      using exponent_lower [OF y ey] by (simp add: divide_right_mono)
    finally have "2 ^ 52 \<le> round_half_even (y / pow2 (?ey - 52))"
      by (rule rhe_ge_int)
    then have "real_of_int (2 ^ 52) \<le> real_of_int (round_half_even (y / pow2 (?ey - 52)))"
      by (simp only: of_int_le_iff)
    then have "real_of_int (2 ^ 52) * pow2 (?ey - 52)
                 \<le> real_of_int (round_half_even (y / pow2 (?ey - 52))) * pow2 (?ey - 52)"
      by (rule mult_right_mono) simp
    moreover have "real_of_int (2 ^ 52) * pow2 (?ey - 52) = pow2 ?ey"
      by (simp add: pow2_52 [of ?ey])
    moreover have "f64_round y
                     = real_of_int (round_half_even (y / pow2 (?ey - 52))) * pow2 (?ey - 52)"
      using y by (rule f64_round_pos_def)
    ultimately have "pow2 ?ey \<le> f64_round y"
      by (simp only:)
    with a show ?thesis by linarith
  qed
qed

lemma f64_round_mono: "x \<le> y \<Longrightarrow> f64_round x \<le> f64_round y"
proof -
  assume xy: "x \<le> y"
  consider "0 < x" | "x \<le> 0" "0 \<le> y" | "y < 0" by linarith
  then show ?thesis
  proof cases
    case 1
    then show ?thesis using xy by (rule f64_round_mono_pos)
  next
    case 2
    have "f64_round x \<le> 0"
      using f64_round_nonneg [of "- x"] 2(1) by (simp add: f64_round_minus)
    moreover have "0 \<le> f64_round y" using 2(2) by (rule f64_round_nonneg)
    ultimately show ?thesis by linarith
  next
    case 3
    then have "f64_round (- y) \<le> f64_round (- x)"
      using xy by (intro f64_round_mono_pos) simp_all
    then show ?thesis by (simp add: f64_round_minus)
  qed
qed

lemma f64_round_eval:
  assumes "0 < x" and "pow2 e \<le> x" and "x < pow2 (e + 1)" and "- 1022 \<le> e"
  shows "f64_round x = of_int (round_half_even (x / pow2 (e - 52))) * pow2 (e - 52)"
proof -
  have "\<lfloor>log 2 x\<rfloor> = e"
    using assms(1-3) by (subst floor_log_eq_powr_iff) (simp_all add: pow2_powr)
  with assms(4) have "f64_exponent x = e"
    using assms(1) by (simp add: f64_exponent_def)
  with assms(1) show ?thesis by (simp add: f64_round_pos_def)
qed

lemma f64_round_eval_sub:
  assumes "0 < x" and "x < pow2 (- 1022)"
  shows "f64_round x = of_int (round_half_even (x / pow2 (- 1074))) * pow2 (- 1074)"
proof -
  have "\<lfloor>log 2 x\<rfloor> < - 1022"
  proof -
    have "log 2 x < log 2 (pow2 (- 1022))"
      using assms by (simp add: log_less_cancel_iff)
    also have "\<dots> = real_of_int (- 1022)"
      by (simp add: pow2_powr)
    finally show ?thesis by (simp add: floor_less_iff)
  qed
  then have "f64_exponent x = - 1022"
    using assms(1) by (simp add: f64_exponent_def)
  with assms(1) show ?thesis by (simp add: f64_round_pos_def)
qed

lemma f64_round_pow2: "- 1022 \<le> k \<Longrightarrow> f64_round (pow2 k) = pow2 k"
proof -
  assume k: "- 1022 \<le> k"
  have "pow2 k < pow2 (k + 1)"
    by (simp add: pow2_powr)
  then have "f64_round (pow2 k) = of_int (round_half_even (pow2 k / pow2 (k - 52))) * pow2 (k - 52)"
    using k by (intro f64_round_eval) simp_all
  moreover have "pow2 k / pow2 (k - 52) = of_int (2 ^ 52)"
    by (simp add: pow2_52 [of k])
  moreover have "real_of_int (2 ^ 52) * pow2 (k - 52) = pow2 k"
    by (simp add: pow2_52 [of k])
  ultimately show ?thesis by (simp only: rhe_of_int)
qed

lemma f64_round_one [simp]: "f64_round 1 = 1"
  using f64_round_pow2 [of 0] by (simp add: pow2_def)

lemma f64_round_two [simp]: "f64_round 2 = 2"
  using f64_round_pow2 [of 1] by (simp add: pow2_def)

text \<open>
  Every rounded value is a multiple of \<open>2^(-1074)\<close>, so the difference of two distinct
  floats does not round to zero.
\<close>

lemma f64_round_grid: "\<exists>n::int. f64_round x = of_int n * pow2 (- 1074)"
proof (cases "x = 0")
  case True
  then show ?thesis by (intro exI [of _ 0]) simp
next
  case False
  let ?e = "f64_exponent x"
  have "- 1022 \<le> ?e" by (simp add: f64_exponent_def)
  then have "pow2 (?e - 52) = 2 ^ nat (?e + 1022) * pow2 (- 1074)"
    using pow2_shift [of "- 1074" "nat (?e + 1022)"] by simp
  moreover have "sgn x = of_int (if 0 < x then 1 else - 1)"
    using False by (simp add: sgn_if)
  ultimately have "f64_round x
      = of_int ((if 0 < x then 1 else - 1) * round_half_even (\<bar>x\<bar> / pow2 (?e - 52))
                  * 2 ^ nat (?e + 1022))
          * pow2 (- 1074)"
    using False by (simp add: f64_round_def Let_def)
  then show ?thesis by blast
qed

lemma f64_round_ulp: "f64_round (pow2 (- 1074)) = pow2 (- 1074)"
proof -
  have "pow2 (- 1074) < pow2 (- 1022)" by (simp add: pow2_powr)
  then have "f64_round (pow2 (- 1074))
      = of_int (round_half_even (pow2 (- 1074) / pow2 (- 1074))) * pow2 (- 1074)"
    by (intro f64_round_eval_sub) simp_all
  then show ?thesis by (simp add: round_half_even_def)
qed

lemma f64_round_diff_nonzero:
  assumes "a = f64_round x" and "b = f64_round y" and "a \<noteq> b"
  shows "f64_round (a - b) \<noteq> 0"
proof -
  let ?g = "pow2 (- 1074)"
  from f64_round_grid [of x] assms(1) obtain m :: int where m: "a = of_int m * ?g" by auto
  from f64_round_grid [of y] assms(2) obtain n :: int where n: "b = of_int n * ?g" by auto
  have far: "?g \<le> x - y" if "x = of_int i * ?g" "y = of_int j * ?g" "y < x" for x y :: real and i j :: int
  proof -
    from that have "of_int j * ?g < of_int i * ?g" by simp
    then have "j < i" by (simp add: mult_less_cancel_right)
    then have "real_of_int 1 \<le> real_of_int (i - j)" by simp
    then have "real_of_int 1 * ?g \<le> real_of_int (i - j) * ?g"
      by (rule mult_right_mono) simp
    with that show ?thesis by (simp add: algebra_simps)
  qed
  have pos: "0 < f64_round (x - y)" if "x = of_int i * ?g" "y = of_int j * ?g" "y < x" for x y :: real and i j :: int
  proof -
    have "f64_round ?g \<le> f64_round (x - y)"
      using far [OF that] by (rule f64_round_mono)
    then show ?thesis by (simp add: f64_round_ulp) (metis less_le_trans pow2_pos)
  qed
  from assms(3) consider "b < a" | "a < b" by linarith
  then show ?thesis
  proof cases
    case 1
    from pos [OF m n 1] show ?thesis by simp
  next
    case 2
    from pos [OF n m 2] have "0 < f64_round (- (a - b))" by simp
    then have "0 < - f64_round (a - b)" by (simp only: f64_round_minus)
    then show ?thesis by simp
  qed
qed

lemma f64_round_small: "\<bar>x\<bar> \<le> 2 \<Longrightarrow> \<bar>f64_round x\<bar> \<le> 2"
proof -
  assume "\<bar>x\<bar> \<le> 2"
  then have "- 2 \<le> x" "x \<le> 2" by simp_all
  then show ?thesis
    using f64_round_mono [of "- 2" x] f64_round_mono [of x 2] by (simp add: f64_round_minus)
qed

lemma to_f64_small: "\<bar>x\<bar> \<le> 2 \<Longrightarrow> to_f64 x = Finite (f64_round x)"
proof -
  assume "\<bar>x\<bar> \<le> 2"
  then have r: "\<bar>f64_round x\<bar> \<le> 2" by (rule f64_round_small)
  have "(2::real) ^ 1 < 2 ^ 1024"
    by (rule power_strict_increasing) simp_all
  then have big: "(2::real) < 2 ^ 1024" by (simp only: power_one_right)
  from r big have "\<not> 2 ^ 1024 \<le> f64_round x" "\<not> f64_round x \<le> - (2 ^ 1024)"
    by linarith+
  then show ?thesis by (simp only: to_f64_def Let_def if_False)
qed


section \<open>Correction as Python computes it\<close>

lemma fsub_Finite: "fsub (Finite x) (Finite y) = to_f64 (x - y)"
  by (simp add: fsub_def)

lemma to_f64_zero [simp]: "to_f64 0 = Finite 0"
  using to_f64_small [of 0] by simp

lemma to_f64_one [simp]: "to_f64 1 = Finite 1"
  using to_f64_small [of 1] by simp

lemma to_f64_minus_one [simp]: "to_f64 (- 1) = Finite (- 1)"
  using to_f64_small [of "- 1"] by (simp add: f64_round_minus)

text \<open>
  For an axis whose \<open>min\<close>, \<open>centre\<close> and \<open>max\<close> are floats with
  \<open>0 \<le> min < centre < max \<le> 1\<close> (as they are in every state that events produce), with
  \<open>hot_zone = 0\<close>, \<open>dead_zone\<close> in \<open>[0, 1)\<close> and no inversion: at \<open>value = centre\<close> the
  result is \<open>0\<close>; at \<open>value = max\<close> it is exactly \<open>1.0\<close> if the computed \<open>high_start\<close>
  is below \<open>max\<close>, and \<open>0\<close> if rounding has put it onto \<open>max\<close>; at \<open>value = min\<close> it is
  exactly \<open>-1.0\<close> if the computed \<open>low_start\<close> is above \<open>min\<close>, and \<open>0\<close> otherwise.
\<close>

lemma corrected_value_f64_extremes:
  assumes f: "is_f64 (axis_min a)" "is_f64 (centre a)" "is_f64 (axis_max a)"
    and r: "0 \<le> axis_min a" "axis_min a < centre a" "centre a < axis_max a" "axis_max a \<le> 1"
    and z: "hot_zone a = 0" "0 \<le> dead_zone a" "dead_zone a < 1" "\<not> invert a"
  shows "(axis_value a = axis_max a \<longrightarrow>
            corrected_value_f64 a
              = Inr (Finite (if fgt (Finite (axis_max a)) (f64_high_start a) then 1 else 0)))
       \<and> (axis_value a = axis_min a \<longrightarrow>
            corrected_value_f64 a
              = Inr (Finite (if flt (Finite (axis_min a)) (f64_low_start a) then - 1 else 0)))
       \<and> (axis_value a = centre a \<longrightarrow> corrected_value_f64 a = Inr (Finite 0))"
proof -
  let ?mn = "axis_min a" and ?c = "centre a" and ?mx = "axis_max a" and ?dz = "dead_zone a"
  from f have id: "f64_round ?mn = ?mn" "f64_round ?c = ?c" "f64_round ?mx = ?mx"
    by (simp_all add: is_f64_def)
  define hr where "hr = f64_round (?mx - ?c)"
  define t where "t = f64_round (?dz * hr)"
  define hs where "hs = f64_round (?c + t)"
  define lr where "lr = f64_round (?c - ?mn)"
  define u where "u = f64_round (?dz * lr)"
  define ls where "ls = f64_round (?c - u)"
  have hr: "0 \<le> hr" "hr \<le> 1"
    using f64_round_mono [of 0 "?mx - ?c"] f64_round_mono [of "?mx - ?c" 1] r
    by (simp_all add: hr_def)
  have lr: "0 \<le> lr" "lr \<le> 1"
    using f64_round_mono [of 0 "?c - ?mn"] f64_round_mono [of "?c - ?mn" 1] r
    by (simp_all add: lr_def)
  have dh: "0 \<le> ?dz * hr" "?dz * hr \<le> 1"
    using z hr by (simp_all add: mult_le_one)
  have dl: "0 \<le> ?dz * lr" "?dz * lr \<le> 1"
    using z lr by (simp_all add: mult_le_one)
  have t: "0 \<le> t" "t \<le> 1"
    using f64_round_mono [of 0 "?dz * hr"] f64_round_mono [of "?dz * hr" 1] dh
    by (simp_all add: t_def)
  have u: "0 \<le> u" "u \<le> 1"
    using f64_round_mono [of 0 "?dz * lr"] f64_round_mono [of "?dz * lr" 1] dl
    by (simp_all add: u_def)
  have hs: "?c \<le> hs" "hs \<le> 2"
    using f64_round_mono [of ?c "?c + t"] f64_round_mono [of "?c + t" 2] t r id
    by (simp_all add: hs_def)
  have ls: "ls \<le> ?c" "- 2 \<le> ls"
    using f64_round_mono [of "?c - u" ?c] f64_round_mono [of "- 2" "?c - u"] u r id
    by (simp_all add: ls_def f64_round_minus)
  have high_range: "f64_high_range a = Finite hr"
    using r by (simp add: f64_high_range_def fsub_Finite to_f64_small hr_def)
  have low_range: "f64_low_range a = Finite lr"
    using r by (simp add: f64_low_range_def fsub_Finite to_f64_small lr_def)
  have high_start: "f64_high_start a = Finite hs"
    using dh t r by (simp add: f64_high_start_def high_range to_f64_small t_def [symmetric] hs_def)
  have low_start: "f64_low_start a = Finite ls"
    using dl u r by (simp add: f64_low_start_def low_range fsub_Finite to_f64_small
        u_def [symmetric] ls_def)
  have high_end: "f64_high_end a = Finite ?mx"
    using r z by (simp add: f64_high_end_def high_range fsub_Finite to_f64_small id)
  have low_end: "f64_low_end a = Finite ?mn"
    using r z by (simp add: f64_low_end_def low_range to_f64_small id)
  have quot: "fdiv (to_f64 (x - y)) (to_f64 (x - y)) = Inr (Finite 1)"
       "fdiv (to_f64 (y - x)) (to_f64 (x - y)) = Inr (Finite (- 1))"
    if "x = f64_round x'" "y = f64_round y'" "x \<noteq> y" "\<bar>x - y\<bar> \<le> 2" for x y x' y'
  proof -
    have nz: "f64_round (x - y) \<noteq> 0"
      using that(1-3) by (rule f64_round_diff_nonzero)
    have "to_f64 (x - y) = Finite (f64_round (x - y))"
      using that(4) by (rule to_f64_small)
    moreover have "to_f64 (y - x) = Finite (- f64_round (x - y))"
      using that(4) to_f64_small [of "y - x"] f64_round_minus [of "x - y"] by simp
    ultimately show "fdiv (to_f64 (x - y)) (to_f64 (x - y)) = Inr (Finite 1)"
      "fdiv (to_f64 (y - x)) (to_f64 (x - y)) = Inr (Finite (- 1))"
      using nz by simp_all
  qed
  have top: "corrected_value_f64 a = Inr (Finite 1)" if "axis_value a = ?mx" "hs < ?mx"
  proof -
    have "fdiv (to_f64 (?mx - hs)) (to_f64 (?mx - hs)) = Inr (Finite 1)"
      using that(2) hs r id by (intro quot(1) [of _ ?mx _ "?c + t"]) (simp_all add: hs_def)
    with that z show ?thesis
      by (simp add: corrected_value_f64_def Let_def high_start high_end fsub_Finite)
  qed
  have top0: "corrected_value_f64 a = Inr (Finite 0)" if "axis_value a = ?mx" "\<not> hs < ?mx"
    using that z ls r
    by (simp add: corrected_value_f64_def Let_def high_start low_start flt_def)
  have bot: "corrected_value_f64 a = Inr (Finite (- 1))" if "axis_value a = ?mn" "?mn < ls"
  proof -
    have "fdiv (to_f64 (?mn - ls)) (to_f64 (ls - ?mn)) = Inr (Finite (- 1))"
      using that(2) ls r id by (intro quot(2) [of _ "?c - u" _ ?mn]) (simp_all add: ls_def)
    with that z hs r show ?thesis
      by (simp add: corrected_value_f64_def Let_def high_start low_start low_end fsub_Finite
          flt_def)
  qed
  have bot0: "corrected_value_f64 a = Inr (Finite 0)" if "axis_value a = ?mn" "\<not> ?mn < ls"
    using that z hs r
    by (simp add: corrected_value_f64_def Let_def high_start low_start flt_def)
  have mid: "corrected_value_f64 a = Inr (Finite 0)" if "axis_value a = ?c"
    using that z hs ls
    by (simp add: corrected_value_f64_def Let_def high_start low_start flt_def)
  from top top0 bot bot0 mid show ?thesis
    by (simp add: high_start low_start flt_def)
qed

text \<open>Roundings of the numbers that the two examples below go through.\<close>

lemma f64_20_255: "f64_round (20 / 255) = 1412894000743685 / 18014398509481984"
  by (subst f64_round_eval [where e = "- 4"]) (simp_all add: pow2_def round_half_even_def Let_def)

lemma f64_26_255: "f64_round (26 / 255) = 3673524401933581 / 36028797018963968"
  by (subst f64_round_eval [where e = "- 4"]) (simp_all add: pow2_def round_half_even_def Let_def)

lemma f64_230_255: "f64_round (230 / 255) = 8124140504276189 / 9007199254740992"
  by (subst f64_round_eval [where e = "- 1"]) (simp_all add: pow2_def round_half_even_def Let_def)

lemma f64_id_mn: "f64_round (1412894000743685 / 18014398509481984) = 1412894000743685 / 18014398509481984"
  by (subst f64_round_eval [where e = "- 4"]) (simp_all add: pow2_def round_half_even_def Let_def)

lemma f64_id_c: "f64_round (3673524401933581 / 36028797018963968) = 3673524401933581 / 36028797018963968"
  by (subst f64_round_eval [where e = "- 4"]) (simp_all add: pow2_def round_half_even_def Let_def)

lemma f64_id_mx: "f64_round (8124140504276189 / 9007199254740992) = 8124140504276189 / 9007199254740992"
  by (subst f64_round_eval [where e = "- 1"]) (simp_all add: pow2_def round_half_even_def Let_def)

lemma f64_id_dz: "f64_round (9007199254740991 / 9007199254740992) = 9007199254740991 / 9007199254740992"
  by (subst f64_round_eval [where e = "- 1"]) (simp_all add: pow2_def round_half_even_def Let_def)

lemma cex_lr: "f64_round (3673524401933581 / 36028797018963968 - 1412894000743685 / 18014398509481984) = 847736400446211 / 36028797018963968"
  by (subst f64_round_eval [where e = "- 6"]) (simp_all add: pow2_def round_half_even_def Let_def)

lemma cex_u: "f64_round (9007199254740991 / 9007199254740992 * (847736400446211 / 36028797018963968)) = 6781891203569687 / 288230376151711744"
  by (subst f64_round_eval [where e = "- 6"]) (simp_all add: pow2_def round_half_even_def Let_def)

lemma cex_ls: "f64_round (3673524401933581 / 36028797018963968 - 6781891203569687 / 288230376151711744) = 1412894000743685 / 18014398509481984"
  by (subst f64_round_eval [where e = "- 4"]) (simp_all add: pow2_def round_half_even_def Let_def)

lemma f64_id_s05: "f64_round (3602879701896397 / 72057594037927936) = 3602879701896397 / 72057594037927936"
  by (subst f64_round_eval [where e = "- 5"]) (simp_all add: pow2_def round_half_even_def Let_def)

lemma f64_id_s09: "f64_round (8106479329266893 / 9007199254740992) = 8106479329266893 / 9007199254740992"
  by (subst f64_round_eval [where e = "- 1"]) (simp_all add: pow2_def round_half_even_def Let_def)

lemma f64_id_s01: "f64_round (3602879701896397 / 36028797018963968) = 3602879701896397 / 36028797018963968"
  by (subst f64_round_eval [where e = "- 4"]) (simp_all add: pow2_def round_half_even_def Let_def)

lemma f64_id_s07: "f64_round (3152519739159347 / 4503599627370496) = 3152519739159347 / 4503599627370496"
  by (subst f64_round_eval [where e = "- 1"]) (simp_all add: pow2_def round_half_even_def Let_def)

lemma sc_hr: "f64_round (8106479329266893 / 9007199254740992 - 1 / 2) = 3602879701896397 / 9007199254740992"
  by (subst f64_round_eval [where e = "- 2"]) (simp_all add: pow2_def round_half_even_def Let_def)

lemma sc_t: "f64_round (3602879701896397 / 72057594037927936 * (3602879701896397 / 9007199254740992)) = 1441151880758559 / 72057594037927936"
  by (subst f64_round_eval [where e = "- 6"]) (simp_all add: pow2_def round_half_even_def Let_def)

lemma sc_hs: "f64_round (1 / 2 + 1441151880758559 / 72057594037927936) = 1170935903116329 / 2251799813685248"
  by (subst f64_round_eval [where e = "- 1"]) (simp_all add: pow2_def round_half_even_def Let_def)

lemma sc_lr: "f64_round (1 / 2 - 3602879701896397 / 36028797018963968) = 3602879701896397 / 9007199254740992"
  by (subst f64_round_eval [where e = "- 2"]) (simp_all add: pow2_def round_half_even_def Let_def)

lemma sc_u: "f64_round (3602879701896397 / 72057594037927936 * (3602879701896397 / 9007199254740992)) = 1441151880758559 / 72057594037927936"
  by (subst f64_round_eval [where e = "- 6"]) (simp_all add: pow2_def round_half_even_def Let_def)

lemma sc_ls: "f64_round (1 / 2 - 1441151880758559 / 72057594037927936) = 1080863910568919 / 2251799813685248"
  by (subst f64_round_eval [where e = "- 2"]) (simp_all add: pow2_def round_half_even_def Let_def)

lemma sc_num: "f64_round (3152519739159347 / 4503599627370496 - 1170935903116329 / 2251799813685248) = 810647932926689 / 4503599627370496"
  by (subst f64_round_eval [where e = "- 3"]) (simp_all add: pow2_def round_half_even_def Let_def)

lemma sc_den: "f64_round (8106479329266893 / 9007199254740992 - 1170935903116329 / 2251799813685248) = 3422735716801577 / 9007199254740992"
  by (subst f64_round_eval [where e = "- 2"]) (simp_all add: pow2_def round_half_even_def Let_def)

lemma sc_q: "f64_round ((810647932926689 / 4503599627370496) / (3422735716801577 / 9007199254740992)) = 4266568068035205 / 9007199254740992"
  by (subst f64_round_eval [where e = "- 2"]) (simp_all add: pow2_def round_half_even_def Let_def)

lemma f64_9_10: "f64_round (9 / 10) = 8106479329266893 / 9007199254740992"
  by (subst f64_round_eval [where e = "- 1"]) (simp_all add: pow2_def round_half_even_def Let_def)

lemma f64_1_10: "f64_round (1 / 10) = 3602879701896397 / 36028797018963968"
  by (subst f64_round_eval [where e = "- 4"]) (simp_all add: pow2_def round_half_even_def Let_def)

lemma f64_5_100: "f64_round (5 / 100) = 3602879701896397 / 72057594037927936"
  by (subst f64_round_eval [where e = "- 5"]) (simp_all add: pow2_def round_half_even_def Let_def)

lemma f64_7_10: "f64_round (7 / 10) = 3152519739159347 / 4503599627370496"
  by (subst f64_round_eval [where e = "- 1"]) (simp_all add: pow2_def round_half_even_def Let_def)

lemma f64_id_half: "f64_round (1 / 2) = 1 / 2"
  by (subst f64_round_eval [where e = "- 1"]) (simp_all add: pow2_def round_half_even_def Let_def)

lemma to_f64_evalI: "f64_round x = r \<Longrightarrow> \<bar>x\<bar> \<le> 2 \<Longrightarrow> to_f64 x = Finite r"
  using to_f64_small [of x] by simp

lemma is_f64_I: "f64_round x = x \<Longrightarrow> \<bar>x\<bar> \<le> 2 \<Longrightarrow> is_f64 x"
proof -
  assume a: "f64_round x = x" "\<bar>x\<bar> \<le> 2"
  have "(2::real) ^ 1 < 2 ^ 1024"
    by (rule power_strict_increasing) simp_all
  then have "(2::real) < 2 ^ 1024" by (simp only: power_one_right)
  with a(2) have "\<bar>x\<bar> < 2 ^ 1024" by linarith
  with a(1) show ?thesis by (simp only: is_f64_def simp_thms)
qed

text \<open>
  C6 does not hold of the code. The docstring of \<open>corrected_value\<close> says that the function
  "should always return 1.0 or -1.0 at the extreme ends of the axis". Build the controller
  with \<open>dead_zone = 0.9999999999999999\<close> (that is \<open>1 - 2^(-53)\<close>) and deliver on axis 0
  the samples 26, then recentre, then 230 and 20 (each divided by 255 and rounded to a
  float): the axis has \<open>min = 20/255\<close>, \<open>centre = 26/255\<close>, \<open>max = 230/255\<close> and
  \<open>value = min\<close>, and every condition of the claim holds. Python computes \<open>low_start\<close> as exactly \<open>min\<close>, so
  \<open>value < low_start\<close> is false and \<open>corrected_value()\<close> returns \<open>0\<close>, not \<open>-1.0\<close>.
\<close>

theorem corrected_value_f64_zero_at_min:
  "(let a = \<lparr>name = ''left_x'',
               centre = 3673524401933581 / 36028797018963968,
               axis_max = 8124140504276189 / 9007199254740992,
               axis_min = 1412894000743685 / 18014398509481984,
               axis_value = 1412894000743685 / 18014398509481984,
               invert = False,
               dead_zone = 9007199254740991 / 9007199254740992,
               hot_zone = 0\<rparr>
    in run_axis_ops (Axis ''left_x'' False (dead_zone a) 0)
         [OpSet (f64_round (26 / 255)), OpRecentre, OpSet (f64_round (230 / 255)),
          OpSet (f64_round (20 / 255))] = a
     \<and> f64_round (20 / 255) = axis_min a \<and> f64_round (26 / 255) = centre a
     \<and> f64_round (230 / 255) = axis_max a
     \<and> is_f64 (dead_zone a) \<and> dead_zone a = 1 - 1 / 2 ^ 53
     \<and> axis_min a < centre a \<and> centre a < axis_max a \<and> hot_zone a = 0
     \<and> 0 \<le> dead_zone a \<and> dead_zone a < 1 \<and> \<not> invert a
     \<and> axis_value a = axis_min a
     \<and> f64_low_start a = Finite (axis_min a)
     \<and> corrected_value_f64 a = Inr (Finite 0))"
proof -
  let ?a = "\<lparr>name = ''left_x'',
               centre = 3673524401933581 / 36028797018963968,
               axis_max = 8124140504276189 / 9007199254740992,
               axis_min = 1412894000743685 / 18014398509481984,
               axis_value = 1412894000743685 / 18014398509481984,
               invert = False,
               dead_zone = 9007199254740991 / 9007199254740992,
               hot_zone = 0 :: real\<rparr>"
  have fields: "is_f64 (axis_min ?a)" "is_f64 (centre ?a)" "is_f64 (axis_max ?a)"
      "is_f64 (dead_zone ?a)"
    by (simp_all add: is_f64_I f64_id_mn f64_id_c f64_id_mx f64_id_dz)
  have "f64_low_range ?a
          = to_f64 (3673524401933581 / 36028797018963968 - 1412894000743685 / 18014398509481984)"
    by (simp only: f64_low_range_def fsub_Finite axis.simps)
  also have "\<dots> = Finite (847736400446211 / 36028797018963968)"
    by (rule to_f64_evalI [OF cex_lr]) simp
  finally have lr: "f64_low_range ?a = Finite (847736400446211 / 36028797018963968)" .
  have "fmul (Finite (9007199254740991 / 9007199254740992)) (f64_low_range ?a)
          = to_f64 (9007199254740991 / 9007199254740992 * (847736400446211 / 36028797018963968))"
    by (simp only: lr fmul.simps axis.simps)
  also have "\<dots> = Finite (6781891203569687 / 288230376151711744)"
    by (rule to_f64_evalI [OF cex_u]) simp
  finally have u: "fmul (Finite (9007199254740991 / 9007199254740992)) (f64_low_range ?a)
                     = Finite (6781891203569687 / 288230376151711744)" .
  have "f64_low_start ?a
          = to_f64 (3673524401933581 / 36028797018963968 - 6781891203569687 / 288230376151711744)"
    by (simp only: f64_low_start_def u fsub_Finite axis.simps)
  also have "\<dots> = Finite (1412894000743685 / 18014398509481984)"
    by (rule to_f64_evalI [OF cex_ls]) simp
  finally have ls: "f64_low_start ?a = Finite (1412894000743685 / 18014398509481984)" .
  have "corrected_value_f64 ?a
          = Inr (Finite (if flt (Finite (axis_min ?a)) (f64_low_start ?a) then - 1 else 0))"
    using corrected_value_f64_extremes [of ?a] fields by simp
  then have res: "corrected_value_f64 ?a = Inr (Finite 0)"
    by (simp add: ls flt_def)
  have g1: "f64_round (20 / 255) = axis_min ?a" "f64_round (26 / 255) = centre ?a"
      "f64_round (230 / 255) = axis_max ?a"
    by (simp_all only: axis.simps f64_20_255 f64_26_255 f64_230_255)
  have g2: "dead_zone ?a = 1 - 1 / 2 ^ 53" "axis_min ?a < centre ?a" "centre ?a < axis_max ?a"
      "hot_zone ?a = 0" "0 \<le> dead_zone ?a" "dead_zone ?a < 1" "\<not> invert ?a"
      "axis_value ?a = axis_min ?a"
    by simp_all
  have g3: "f64_low_start ?a = Finite (axis_min ?a)"
    by (simp only: ls axis.simps)
  have g4: "run_axis_ops (Axis ''left_x'' False (dead_zone ?a) 0)
              [OpSet (f64_round (26 / 255)), OpRecentre, OpSet (f64_round (230 / 255)),
               OpSet (f64_round (20 / 255))] = ?a"
    by (simp only: f64_20_255 f64_26_255 f64_230_255)
       (simp add: Axis_def axis_set_def axis_recentre_def)
  from g1 g2 g3 g4 fields(4) res show ?thesis
    unfolding Let_def by blast
qed

text \<open>
  The scenario of C7 as Python computes it, on the floats nearest to \<open>0.9\<close>, \<open>0.1\<close>,
  \<open>0.05\<close> and \<open>0.7\<close>: the results are \<open>0\<close>, \<open>1.0\<close>, \<open>-1.0\<close> and
  \<open>4266568068035205 / 2^53\<close>, which Python prints as \<open>0.4736842105263156\<close>.
\<close>

lemma corrected_value_f64_scenario:
  "(let a0 = \<lparr>name = ''left_x'', centre = 1 / 2, axis_max = 8106479329266893 / 9007199254740992, axis_min = 3602879701896397 / 36028797018963968,
                axis_value = 1 / 2, invert = False, dead_zone = 3602879701896397 / 72057594037927936, hot_zone = 0\<rparr>;
        a1 = axis_set (1 / 2) a0;
        a2 = axis_set (8106479329266893 / 9007199254740992) a1;
        a3 = axis_set (3602879701896397 / 36028797018963968) a2;
        a4 = axis_set (3152519739159347 / 4503599627370496) a3
    in f64_round (9 / 10) = axis_max a0 \<and> f64_round (1 / 10) = axis_min a0
     \<and> f64_round (5 / 100) = dead_zone a0 \<and> f64_round (7 / 10) = 3152519739159347 / 4503599627370496
     \<and> corrected_value_f64 a1 = Inr (Finite 0)
     \<and> corrected_value_f64 a2 = Inr (Finite 1)
     \<and> corrected_value_f64 a3 = Inr (Finite (- 1))
     \<and> corrected_value_f64 a4 = Inr (Finite (4266568068035205 / 9007199254740992))
     \<and> \<bar>(4266568068035205 / 9007199254740992 :: real) - 1 / 2\<bar> < 3 / 100)"
proof -
  let ?b = "\<lambda>v. \<lparr>name = ''left_x'', centre = 1 / 2, axis_max = 8106479329266893 / 9007199254740992, axis_min = 3602879701896397 / 36028797018963968,
                  axis_value = v, invert = False, dead_zone = 3602879701896397 / 72057594037927936, hot_zone = 0 :: real\<rparr>"
  have s: "axis_set (1 / 2) (?b (1 / 2)) = ?b (1 / 2)"
      "axis_set (8106479329266893 / 9007199254740992) (?b (1 / 2)) = ?b (8106479329266893 / 9007199254740992)"
      "axis_set (3602879701896397 / 36028797018963968) (?b (8106479329266893 / 9007199254740992)) = ?b (3602879701896397 / 36028797018963968)"
      "axis_set (3152519739159347 / 4503599627370496) (?b (3602879701896397 / 36028797018963968)) = ?b (3152519739159347 / 4503599627370496)"
    by (simp_all add: axis_set_def)
  have fields: "is_f64 (axis_min (?b v))" "is_f64 (centre (?b v))" "is_f64 (axis_max (?b v))" for v
    by (simp_all add: is_f64_I f64_id_s01 f64_id_s09 f64_id_half)
  have "f64_high_range (?b v) = to_f64 (8106479329266893 / 9007199254740992 - 1 / 2)" for v
    by (simp only: f64_high_range_def fsub_Finite axis.simps)
  also have "\<dots> = Finite (3602879701896397 / 9007199254740992)"
    by (rule to_f64_evalI [OF sc_hr]) simp
  finally have hr: "f64_high_range (?b v) = Finite (3602879701896397 / 9007199254740992)" for v .
  have "fmul (Finite (3602879701896397 / 72057594037927936)) (f64_high_range (?b v)) = to_f64 (3602879701896397 / 72057594037927936 * (3602879701896397 / 9007199254740992))" for v
    by (simp only: hr fmul.simps)
  also have "\<dots> = Finite (1441151880758559 / 72057594037927936)"
    by (rule to_f64_evalI [OF sc_t]) simp
  finally have t: "fmul (Finite (3602879701896397 / 72057594037927936)) (f64_high_range (?b v)) = Finite (1441151880758559 / 72057594037927936)" for v .
  have "f64_high_start (?b v) = to_f64 (1 / 2 + 1441151880758559 / 72057594037927936)" for v
    by (simp only: f64_high_start_def t fadd.simps axis.simps)
  also have "\<dots> = Finite (1170935903116329 / 2251799813685248)"
    by (rule to_f64_evalI [OF sc_hs]) simp
  finally have hs: "f64_high_start (?b v) = Finite (1170935903116329 / 2251799813685248)" for v .
  have "f64_low_range (?b v) = to_f64 (1 / 2 - 3602879701896397 / 36028797018963968)" for v
    by (simp only: f64_low_range_def fsub_Finite axis.simps)
  also have "\<dots> = Finite (3602879701896397 / 9007199254740992)"
    by (rule to_f64_evalI [OF sc_lr]) simp
  finally have lr: "f64_low_range (?b v) = Finite (3602879701896397 / 9007199254740992)" for v .
  have "fmul (Finite (3602879701896397 / 72057594037927936)) (f64_low_range (?b v)) = to_f64 (3602879701896397 / 72057594037927936 * (3602879701896397 / 9007199254740992))" for v
    by (simp only: lr fmul.simps)
  also have "\<dots> = Finite (1441151880758559 / 72057594037927936)"
    by (rule to_f64_evalI [OF sc_u]) simp
  finally have u: "fmul (Finite (3602879701896397 / 72057594037927936)) (f64_low_range (?b v)) = Finite (1441151880758559 / 72057594037927936)" for v .
  have "f64_low_start (?b v) = to_f64 (1 / 2 - 1441151880758559 / 72057594037927936)" for v
    by (simp only: f64_low_start_def u fsub_Finite axis.simps)
  also have "\<dots> = Finite (1080863910568919 / 2251799813685248)"
    by (rule to_f64_evalI [OF sc_ls]) simp
  finally have ls: "f64_low_start (?b v) = Finite (1080863910568919 / 2251799813685248)" for v .
  have "fmul (Finite 0) (f64_high_range (?b v)) = Finite 0" for v
    by (simp add: hr)
  then have "f64_high_end (?b v) = to_f64 (8106479329266893 / 9007199254740992 - 0)" for v
    by (simp only: f64_high_end_def fsub_Finite axis.simps)
  then have he: "f64_high_end (?b v) = Finite (8106479329266893 / 9007199254740992)" for v
    using to_f64_evalI [OF f64_id_s09] by simp
  have r1: "corrected_value_f64 (?b (1 / 2)) = Inr (Finite 0)"
    using corrected_value_f64_extremes [of "?b (1 / 2)"] fields by simp
  have r2: "corrected_value_f64 (?b (8106479329266893 / 9007199254740992)) = Inr (Finite 1)"
    using corrected_value_f64_extremes [of "?b (8106479329266893 / 9007199254740992)"] fields by (simp add: hs)
  have r3: "corrected_value_f64 (?b (3602879701896397 / 36028797018963968)) = Inr (Finite (- 1))"
    using corrected_value_f64_extremes [of "?b (3602879701896397 / 36028797018963968)"] fields by (simp add: ls flt_def)
  have "fsub (Finite (3152519739159347 / 4503599627370496)) (f64_high_start (?b v)) = to_f64 (3152519739159347 / 4503599627370496 - 1170935903116329 / 2251799813685248)" for v
    by (simp only: hs fsub_Finite)
  also have "\<dots> = Finite (810647932926689 / 4503599627370496)"
    by (rule to_f64_evalI [OF sc_num]) simp
  finally have num: "fsub (Finite (3152519739159347 / 4503599627370496)) (f64_high_start (?b v)) = Finite (810647932926689 / 4503599627370496)" for v .
  have "fsub (f64_high_end (?b v)) (f64_high_start (?b v)) = to_f64 (8106479329266893 / 9007199254740992 - 1170935903116329 / 2251799813685248)" for v
    by (simp only: hs he fsub_Finite)
  also have "\<dots> = Finite (3422735716801577 / 9007199254740992)"
    by (rule to_f64_evalI [OF sc_den]) simp
  finally have den: "fsub (f64_high_end (?b v)) (f64_high_start (?b v)) = Finite (3422735716801577 / 9007199254740992)" for v .
  have "to_f64 ((810647932926689 / 4503599627370496) / (3422735716801577 / 9007199254740992)) = Finite (4266568068035205 / 9007199254740992)"
    by (rule to_f64_evalI [OF sc_q]) simp
  then have quot: "fdiv (Finite (810647932926689 / 4503599627370496)) (Finite (3422735716801577 / 9007199254740992)) = Inr (Finite (4266568068035205 / 9007199254740992))"
    by (simp only: fdiv.simps pyfloat.case) simp
  have gt: "fgt (Finite (3152519739159347 / 4503599627370496)) (f64_high_start (?b v))"
      "\<not> fgt (Finite (3152519739159347 / 4503599627370496)) (f64_high_end (?b v))" for v
    by (simp_all add: hs he)
  have r4: "corrected_value_f64 (?b (3152519739159347 / 4503599627370496)) = Inr (Finite (4266568068035205 / 9007199254740992))"
    by (simp only: corrected_value_f64_def Let_def axis.simps gt num den quot if_True if_False
        simp_thms)
  have g1: "f64_round (9 / 10) = axis_max (?b (1 / 2))" "f64_round (1 / 10) = axis_min (?b (1 / 2))"
      "f64_round (5 / 100) = dead_zone (?b (1 / 2))" "f64_round (7 / 10) = 3152519739159347 / 4503599627370496"
    by (simp_all only: axis.simps f64_9_10 f64_1_10 f64_5_100 f64_7_10)
  have g2: "\<bar>(4266568068035205 / 9007199254740992 :: real) - 1 / 2\<bar> < 3 / 100"
    by simp
  from g1 g2 r1 r2 r3 r4 show ?thesis
    unfolding Let_def s by blast
qed

section \<open>Key events\<close>






text \<open>
  C10: a key event whose code maps to button \<open>b\<close> and whose value is neither 0 nor 1 is
  handled as a release is: bit \<open>b\<close> of \<open>buttons_pressed\<close> is cleared, \<open>is_pressed(b)\<close>
  is false afterwards, no handler is called and nothing else changes.
\<close>

theorem handle_event_other_value_clears:
  assumes "ev_type ev = EV_KEY" and "button_of_code (ev_code ev) = Some b"
    and "ev_value ev \<noteq> 0" and "ev_value ev \<noteq> 1"
  shows "handle_event env ev c =
           Some ([], Inr (c\<lparr>buttons_pressed := buttons_pressed c AND NOT (push_bit b 1)\<rparr>))
       \<and> handle_event env ev c = handle_event env (ev\<lparr>ev_value := 0\<rparr>) c
       \<and> \<not> bit (buttons_pressed c AND NOT (push_bit b 1)) b
       \<and> \<not> is_pressed (c\<lparr>buttons_pressed := buttons_pressed c AND NOT (push_bit b 1)\<rparr>) b"
  using assms
  by (simp add: handle_event_def Let_def is_pressed_bit bit_clear_button ret_def)

theorem handle_event_other_value_clears_witness:
  "(let c = \<lparr>stop_function = None, axes = [],
              button_handlers = [\<lparr>reg_id = 0, handler = 7, mask = 8192\<rparr>],
              buttons_pressed = 8192, next_id = 1\<rparr>;
        repeat = \<lparr>ev_type = EV_KEY, ev_code = 305, ev_value = 2\<rparr>
    in button_of_code 305 = Some BUTTON_CIRCLE
     \<and> handle_event (\<lambda>f b s. Inr s) repeat c = Some ([], Inr (c\<lparr>buttons_pressed := 0\<rparr>)))"
  using handle_event_other_value_clears
          [of "\<lparr>ev_type = EV_KEY, ev_code = 305, ev_value = 2\<rparr>" 13
              "\<lambda>f b s. Inr s"
              "\<lparr>stop_function = None, axes = [],
                button_handlers = [\<lparr>reg_id = 0, handler = 7, mask = 8192\<rparr>],
                buttons_pressed = 8192, next_id = 1\<rparr>"]
  by (simp add: button_of_code_def Let_def)

section \<open>Press history\<close>

lemma get_and_clear_returns_and_resets:
  "fst (get_and_clear_button_press_history c) = buttons_pressed c"
  "snd (get_and_clear_button_press_history c) = c\<lparr>buttons_pressed := 0\<rparr>"
  by (simp_all add: get_and_clear_button_press_history_def)

text \<open>
  After the release of a button its bit is clear, whatever came before, so the bitfield
  that the next \<open>get_and_clear_button_press_history\<close> returns does not show a press
  that was released.
\<close>

lemma release_erases_press:
  assumes "button_of_code k = Some b"
  shows "bind_run (handle_event env \<lparr>ev_type = EV_KEY, ev_code = k, ev_value = 0\<rparr> c)
           (\<lambda>c2. ret (bit (fst (get_and_clear_button_press_history c2)) b))
         = Some ([], Inr False)"
  using assms
  by (simp add: handle_event_def Let_def get_and_clear_button_press_history_def bit_simps ret_def)

text \<open>
  C1 does not hold of the code. The docstring of \<open>get_and_clear_button_press_history\<close>
  promises a bitfield with the bit of every button pressed since the last call, but the
  release branch of \<open>handle_event\<close> clears the bit in the same field. On a fresh
  controller: drain, press CIRCLE (key code 305, value 1), release it (value 0), drain.
  \<open>is_pressed(CIRCLE)\<close> is true between press and release; the second drain returns 0,
  with bit 13 clear; \<open>is_pressed(CIRCLE)\<close> is false afterwards and \<open>buttons_pressed\<close>
  is 0.
\<close>

theorem drain_after_press_and_release:
  "bind_run (lift_err (SixAxis \<lparr>list_devices = [], InputDevice = (\<lambda>p. Inl OSError)\<rparr> (5 / 100) 0
                         False [False, False, False, False]))
     (\<lambda>c0. let (d0, c1) = get_and_clear_button_press_history c0
            in bind_run (handle_event env \<lparr>ev_type = EV_KEY, ev_code = 305, ev_value = 1\<rparr> c1)
                 (\<lambda>c2. bind_run (handle_event env \<lparr>ev_type = EV_KEY, ev_code = 305, ev_value = 0\<rparr> c2)
                   (\<lambda>c3. let (d, c4) = get_and_clear_button_press_history c3
                          in ret (is_pressed c2 BUTTON_CIRCLE, d, bit d BUTTON_CIRCLE,
                                  is_pressed c4 BUTTON_CIRCLE, buttons_pressed c4))))
   = Some ([], Inr (True, 0, False, False, 0))"
  by (simp add: SixAxis_default get_and_clear_button_press_history_def handle_event_def
        button_of_code_def dispatch.simps Let_def is_pressed_def ret_def)

section \<open>Connection\<close>

lemma connect_when_connected:
  "stop_function c \<noteq> None \<Longrightarrow> connect h dev controller_name c = Inr (PyBool False, c)"
  by (simp add: connect_def)

lemma connect_no_device:
  "stop_function c = None \<Longrightarrow> list_devices h = [] \<Longrightarrow>
     connect h None controller_name c = Inl IOError"
  by (simp add: connect_def find_controller_device_def)

lemma connect_never_True: "connect h dev controller_name c \<noteq> Inr (PyBool True, c')"
  by (auto simp: connect_def bind_err_def split: sum.splits option.splits)

text \<open>
  C5 does not hold of the code in its middle part. The docstring of \<open>connect\<close> says that
  it returns \<open>True\<close> if a controller was found and connected, but the function ends after
  \<open>_start_device_read_loop\<close> without a \<open>return\<close>. With one device named
  \<open>PLAYSTATION(R)3 Controller\<close> on the host, \<open>connect()\<close> on a fresh, unconnected
  controller returns \<open>None\<close> and leaves the controller connected.
\<close>

theorem connect_returns_None:
  "(let h = \<lparr>list_devices = [''/dev/input/event0''],
              InputDevice = (\<lambda>p. if p = ''/dev/input/event0''
                                   then Inr \<lparr>path = p, dev_name = ''PLAYSTATION(R)3 Controller''\<rparr>
                                   else Inl OSError)\<rparr>
    in bind_err (SixAxis h (5 / 100) 0 False [False, False, False, False])
         (\<lambda>c. bind_err (connect h None ''PLAYSTATION(R)3 Controller'' c)
            (\<lambda>(r, c'). Inr (is_connected c, r, is_connected c'))))
   = Inr (False, PyNone, True)"
  by (simp add: SixAxis_default connect_def find_controller_device_def is_connected_def
        start_device_read_loop_def Let_def)

section \<open>Registrations\<close>

lemma add_masks_distinct:
  "distinct bs \<Longrightarrow> (\<forall>b \<in> set bs. \<not> bit m b) \<Longrightarrow>
     add_masks m bs = fold (\<lambda>b acc. acc OR push_bit b 1) bs m"
proof (induction bs arbitrary: m)
  case Nil
  then show ?case by simp
next
  case (Cons b bs)
  have "m AND push_bit b 1 = 0"
    using Cons.prems(2) by (simp add: bit_iff_and_push_bit_not_eq_0)
  then have eq: "m + push_bit b 1 = m OR push_bit b 1"
    by (rule disjunctive_add_eq_or)
  have "\<forall>x \<in> set bs. \<not> bit (m OR push_bit b (1::int)) x"
    using Cons.prems by (auto simp: bit_simps)
  with Cons.IH [of "m OR push_bit b 1"] Cons.prems(1) eq show ?case by simp
qed

text \<open>For a bare code and for a list without repeats the mask is the OR of the bits.\<close>

lemma register_mask_bare:
  "mask (fst (register_button_handler f (Bare b) c)) = push_bit b 1"
  by (simp add: register_button_handler_def Let_def)

lemma register_mask_distinct:
  "distinct bs \<Longrightarrow>
     mask (fst (register_button_handler f (ButtonList bs) c))
       = fold (\<lambda>b acc. acc OR push_bit b 1) bs 0"
  using add_masks_distinct [of bs 0] by (simp add: register_button_handler_def Let_def)

text \<open>
  C8 does not hold of the code for a list with a repeat: the loop adds \<open>1 << button\<close> to
  the mask where an OR is meant. For \<open>[CIRCLE, CIRCLE]\<close> the stored mask is
  \<open>8192 + 8192 = 16384\<close>, the bit of CROSS, while the OR of the two codes is \<open>8192\<close>;
  the registration is appended with that mask, and with this registration alone in the
  list (and a handler that leaves the controller alone) the loop for CIRCLE does not call
  the handler and the loop for CROSS does.
\<close>

theorem register_mask_repeated_code:
  "(let (h, c') = register_button_handler 7 (ButtonList [BUTTON_CIRCLE, BUTTON_CIRCLE]) c;
        c1 = c'\<lparr>button_handlers := [h]\<rparr>
    in mask h = 16384
     \<and> mask h = push_bit BUTTON_CROSS 1
     \<and> (push_bit BUTTON_CIRCLE 1 OR push_bit BUTTON_CIRCLE 1) = (8192 :: int)
     \<and> button_handlers c' = button_handlers c @ [h]
     \<and> dispatch (\<lambda>f b s. Inr s) (push_bit BUTTON_CIRCLE 1) BUTTON_CIRCLE 0 [] c1
         = Some ([], Inr c1)
     \<and> dispatch (\<lambda>f b s. Inr s) (push_bit BUTTON_CROSS 1) BUTTON_CROSS 0 [] c1
         = Some ([(7, BUTTON_CROSS)], Inr c1))"
  by (simp add: register_button_handler_def dispatch.simps Let_def)

lemma dict_eq_refl: "dict_eq h h"
  by (simp add: dict_eq_def)

text \<open>
  Where no registration in front of \<open>h\<close> has the handler and the mask of \<open>h\<close>, the
  closure removes \<open>h\<close> itself and keeps the rest in order.
\<close>

lemma list_remove_first:
  "\<forall>x \<in> set xs. \<not> dict_eq x h \<Longrightarrow> list_remove h (xs @ h # ys) = Inr (xs @ ys)"
  by (induction xs) (simp_all add: dict_eq_refl)

text \<open>
  Two distinct handlers on CIRCLE, both leaving the controller alone: after the closure
  of the first is called, a press of CIRCLE still calls the second.
\<close>

lemma remove_leaves_other_handler:
  "bind_run (lift_err (SixAxis \<lparr>list_devices = [], InputDevice = (\<lambda>p. Inl OSError)\<rparr> (5 / 100) 0
                         False [False, False, False, False]))
     (\<lambda>c0. let (h1, c1) = register_button_handler 1 (ButtonList [BUTTON_SQUARE, BUTTON_CIRCLE]) c0;
                (h2, c2) = register_button_handler 2 (Bare BUTTON_CIRCLE) c1
            in bind_run (lift_err (remove h1 c2))
                 (\<lambda>c3. bind_run (handle_event (\<lambda>f b s. Inr s)
                                    \<lparr>ev_type = EV_KEY, ev_code = 305, ev_value = 1\<rparr> c3)
                   (\<lambda>c4. ret (map reg_id (button_handlers c3)))))
   = Some ([(2, BUTTON_CIRCLE)], Inr [1])"
  by (simp add: SixAxis_default register_button_handler_def remove_def dict_eq_def
        handle_event_def button_of_code_def dispatch.simps Let_def ret_def)

text \<open>
  C9 does not hold of the code when an earlier registration has the same handler and
  mask. The docstring of \<open>register_button_handler\<close> promises a function that removes
  this registration, but \<open>list.remove\<close> deletes the first element equal to the captured
  dict. Handler 1 is registered on CIRCLE, then handler 2, then handler 1 again
  (registrations 0, 1 and 2; both handlers leave the controller alone); calling the closure of registration 2 removes registration
  0 and keeps registration 2, and a press of CIRCLE then calls handler 2 before handler 1
  where the registration order left by removing registration 2 is handler 1 before
  handler 2.
\<close>

theorem remove_takes_earlier_equal_registration:
  "bind_run (lift_err (SixAxis \<lparr>list_devices = [], InputDevice = (\<lambda>p. Inl OSError)\<rparr> (5 / 100) 0
                         False [False, False, False, False]))
     (\<lambda>c0. let (h1, c1) = register_button_handler 1 (Bare BUTTON_CIRCLE) c0;
                (h2, c2) = register_button_handler 2 (Bare BUTTON_CIRCLE) c1;
                (h3, c3) = register_button_handler 1 (Bare BUTTON_CIRCLE) c2
            in bind_run (lift_err (remove h3 c3))
                 (\<lambda>c4. bind_run (handle_event (\<lambda>f b s. Inr s)
                                    \<lparr>ev_type = EV_KEY, ev_code = 305, ev_value = 1\<rparr> c4)
                   (\<lambda>c5. ret (map reg_id (button_handlers c3), reg_id h3,
                               map reg_id (button_handlers c4)))))
   = Some ([(2, BUTTON_CIRCLE), (1, BUTTON_CIRCLE)], Inr ([0, 1, 2], 2, [1, 2]))"
  by (simp add: SixAxis_default register_button_handler_def remove_def dict_eq_def
        handle_event_def button_of_code_def dispatch.simps Let_def ret_def)

end
